theory Spec2Isabelle
  imports Complex_Main
begin

section \<open>Low-rank cost geometries (ott/geometry/low\_rank.py)\<close>

text \<open>
  The embedding follows \<^verbatim>\<open>LRCGeometry\<close> and \<^verbatim>\<open>add_lrc_geom\<close>. Array entries and
  scalars are real numbers: the arithmetic of the development is exact, rounding is not
  modelled. Where a float operation of the source has no real value (\<^verbatim>\<open>1.0 / 0\<close> gives
  \<^verbatim>\<open>inf\<close>, \<^verbatim>\<open>jnp.sqrt\<close> of a negative number gives \<^verbatim>\<open>nan\<close>) the model stops with the
  outcome \<open>NonFinite\<close>, and nothing is stated about the arrays computed from there on.
\<close>

subsection \<open>Outcomes\<close>

text \<open>
  \<open>AssertionError\<close>, \<open>NotImplementedError\<close> and \<open>ValueError\<close> (with their messages) are the
  exceptions raised by the source; \<open>TypeError\<close> is the shape error of
  \<^verbatim>\<open>jnp.dot\<close>, \<^verbatim>\<open>jnp.matmul\<close> and \<^verbatim>\<open>jnp.concatenate\<close>; \<open>NonFinite\<close> is not an exception
  but the mark described above.
\<close>

datatype error =
    AssertionError
  | NotImplementedError string
  | ValueError string
  | TypeError
  | NonFinite

text \<open>Sequencing: the first failure is the outcome of the whole computation.\<close>

definition bind_e :: "error + 'a \<Rightarrow> ('a \<Rightarrow> error + 'b) \<Rightarrow> error + 'b" where
  "bind_e m f = (case m of Inl e \<Rightarrow> Inl e | Inr x \<Rightarrow> f x)"

subsection \<open>Two-dimensional arrays\<close>

text \<open>
  A \<^verbatim>\<open>jnp.ndarray\<close> of dimension two: its shape and its rows. The shape is kept beside
  the rows because an array with no row still has a number of columns.
\<close>

record ndarray =
  shape0 :: nat
  shape1 :: nat
  rows :: "real list list"

definition wf_ndarray :: "ndarray \<Rightarrow> bool" where
  "wf_ndarray A \<longleftrightarrow>
     length (rows A) = shape0 A \<and> list_all (\<lambda>u. length u = shape1 A) (rows A)"

definition dotv :: "real list \<Rightarrow> real list \<Rightarrow> real" where
  "dotv u v = sum_list (map2 (\<lambda>x y. x * y) u v)"

text \<open>\<^verbatim>\<open>A * s\<close>, \<^verbatim>\<open>A + b\<close> and \<^verbatim>\<open>fn(A)\<close> for a scalar and an elementwise function.\<close>

definition map_nd :: "(real \<Rightarrow> real) \<Rightarrow> ndarray \<Rightarrow> ndarray" where
  "map_nd f A = A\<lparr>rows := map (map f) (rows A)\<rparr>"

definition scale_nd :: "ndarray \<Rightarrow> real \<Rightarrow> ndarray" where
  "scale_nd A s = map_nd (\<lambda>x. x * s) A"

definition add_scalar :: "ndarray \<Rightarrow> real \<Rightarrow> ndarray" where
  "add_scalar A b = map_nd (\<lambda>x. x + b) A"

text \<open>\<^verbatim>\<open>A.T\<close>\<close>

definition transpose_nd :: "ndarray \<Rightarrow> ndarray" where
  "transpose_nd A =
     \<lparr>shape0 = shape1 A, shape1 = shape0 A,
      rows = map (\<lambda>k. map (\<lambda>u. u ! k) (rows A)) [0..<shape1 A]\<rparr>"

text \<open>\<^verbatim>\<open>jnp.matmul(A, B)\<close>: entry \<open>(i, j)\<close> is row \<open>i\<close> of \<open>A\<close> times column \<open>j\<close> of \<open>B\<close>.\<close>

definition matmul :: "ndarray \<Rightarrow> ndarray \<Rightarrow> error + ndarray" where
  "matmul A B =
     (if shape1 A \<noteq> shape0 B then Inl TypeError
      else Inr \<lparr>shape0 = shape0 A, shape1 = shape1 B,
                rows = map (\<lambda>u. map (dotv u) (rows (transpose_nd B))) (rows A)\<rparr>)"

text \<open>\<^verbatim>\<open>jnp.dot\<close> of a matrix and a vector, of a vector and a matrix, of two vectors.\<close>

definition dot_mv :: "ndarray \<Rightarrow> real list \<Rightarrow> error + real list" where
  "dot_mv A v =
     (if shape1 A \<noteq> length v then Inl TypeError
      else Inr (map (\<lambda>u. dotv u v) (rows A)))"

definition dot_vm :: "real list \<Rightarrow> ndarray \<Rightarrow> error + real list" where
  "dot_vm v A =
     (if length v \<noteq> shape0 A then Inl TypeError
      else Inr (map (dotv v) (rows (transpose_nd A))))"

definition dot_vv :: "real list \<Rightarrow> real list \<Rightarrow> error + real" where
  "dot_vv u v = (if length u \<noteq> length v then Inl TypeError else Inr (dotv u v))"

text \<open>
  \<^verbatim>\<open>jnp.max(jnp.abs(A))\<close>: the reduction has no identity, an array without entries
  raises \<^verbatim>\<open>ValueError\<close>.
\<close>

definition max_abs :: "ndarray \<Rightarrow> error + real" where
  "max_abs A =
     (case concat (rows A) of
        [] \<Rightarrow> Inl (ValueError ''zero-size array to reduction operation max which has no identity'')
      | x # xs \<Rightarrow> Inr (fold max (map abs xs) \<bar>x\<bar>))"

text \<open>\<^verbatim>\<open>jnp.concatenate((A, B), axis=1)\<close>\<close>

definition concatenate1 :: "ndarray \<Rightarrow> ndarray \<Rightarrow> error + ndarray" where
  "concatenate1 A B =
     (if shape0 A \<noteq> shape0 B then Inl TypeError
      else Inr \<lparr>shape0 = shape0 A, shape1 = shape1 A + shape1 B,
                rows = map2 (\<lambda>u v. u @ v) (rows A) (rows B)\<rparr>)"

text \<open>
  \<^verbatim>\<open>(A[:, :, None] * A[:, None, :]).reshape((n, r2))\<close>: entry \<open>(i, k, l)\<close> of the product is
  \<open>A[i, k] * A[i, l]\<close>, and the row-major reshape puts it at column \<open>k * r + l\<close>. The size
  of the product is \<open>shape0 A * shape1 A * shape1 A\<close>; a reshape to another size raises.
\<close>

definition outer_reshape :: "ndarray \<Rightarrow> nat \<Rightarrow> nat \<Rightarrow> error + ndarray" where
  "outer_reshape A n r2 =
     (if shape0 A * shape1 A * shape1 A \<noteq> n * r2 then Inl TypeError
      else Inr \<lparr>shape0 = n, shape1 = r2,
                rows = map (\<lambda>u. concat (map (\<lambda>x. map (\<lambda>y. x * y) u) u)) (rows A)\<rparr>)"

text \<open>Float division and square root, with the outcome \<open>NonFinite\<close> where there is no real value.\<close>

definition div_f :: "real \<Rightarrow> real \<Rightarrow> error + real" where
  "div_f x y = (if y = 0 then Inl NonFinite else Inr (x / y))"

definition sqrt_f :: "real \<Rightarrow> error + real" where
  "sqrt_f x = (if x < 0 then Inl NonFinite else Inr (sqrt x))"

subsection \<open>The geometry\<close>

text \<open>
  The values \<^verbatim>\<open>scale_cost\<close> can hold: the annotation allows \<^verbatim>\<open>None\<close>, a float and a
  string, and Python does not stop an int or a bool.
\<close>

datatype pyval = PyNone | PyFloat real | PyStr string | PyInt int | PyBool bool

fun isinstance_float :: "pyval \<Rightarrow> bool" where
  "isinstance_float (PyFloat x) = True"
| "isinstance_float v = False"

fun isinstance_str :: "pyval \<Rightarrow> bool" where
  "isinstance_str (PyStr s) = True"
| "isinstance_str v = False"

fun float_of :: "pyval \<Rightarrow> real" where
  "float_of (PyFloat x) = x"
| "float_of v = 0"

fun format_str :: "pyval \<Rightarrow> string" where
  "format_str (PyStr s) = s"
| "format_str v = []"

text \<open>
  The attributes \<^verbatim>\<open>self._cost_1\<close>, \<^verbatim>\<open>self._cost_2\<close>, \<^verbatim>\<open>self._bias\<close>, \<^verbatim>\<open>self._kwargs\<close> and
  \<^verbatim>\<open>self._scale_cost\<close>. The keyword arguments are the configuration of the base class
  \<^verbatim>\<open>geometry.Geometry\<close>, whose values stay opaque.
\<close>

record 'v LRCGeometry =
  attr_cost_1 :: ndarray
  attr_cost_2 :: ndarray
  attr_bias :: real
  attr_kwargs :: "(string \<times> 'v) list"
  attr_scale_cost :: pyval

text \<open>
  \<^verbatim>\<open>__init__\<close>: the only check is the assertion on the numbers of columns. The
  initialiser of the base class stores the keyword arguments it is given.
\<close>

definition LRCGeometry_init ::
  "ndarray \<Rightarrow> ndarray \<Rightarrow> real \<Rightarrow> pyval \<Rightarrow> (string \<times> 'v) list \<Rightarrow> error + 'v LRCGeometry" where
  "LRCGeometry_init cost_1 cost_2 bias scale_cost kwargs =
     (if shape1 cost_1 = shape1 cost_2
      then Inr \<lparr>attr_cost_1 = cost_1, attr_cost_2 = cost_2, attr_bias = bias,
                attr_kwargs = kwargs, attr_scale_cost = scale_cost\<rparr>
      else Inl AssertionError)"

definition cost_rank :: "'v LRCGeometry \<Rightarrow> nat" where
  "cost_rank g = shape1 (attr_cost_1 g)"

definition shape :: "'v LRCGeometry \<Rightarrow> nat \<times> nat" where
  "shape g = (shape0 (attr_cost_1 g), shape0 (attr_cost_2 g))"

text \<open>
  The property \<^verbatim>\<open>scale_cost\<close>, branch by branch in the order of the source.
  \<^verbatim>\<open>jax.lax.stop_gradient\<close> returns its argument and is left out.
\<close>

definition scale_cost :: "'v LRCGeometry \<Rightarrow> error + real" where
  "scale_cost g =
     (let sc = attr_scale_cost g in
      if isinstance_float sc then Inr (float_of sc)
      else if sc = PyStr ''max_bound'' then
        bind_e (max_abs (attr_cost_1 g)) (\<lambda>m1.
        bind_e (max_abs (attr_cost_2 g)) (\<lambda>m2.
        div_f 1 (m1 * m2 + \<bar>attr_bias g\<bar>)))
      else if sc = PyStr ''mean'' then
        bind_e (dot_vm (replicate (fst (shape g)) 1) (attr_cost_1 g)) (\<lambda>factor1.
        bind_e (dot_mv (transpose_nd (attr_cost_2 g)) (replicate (snd (shape g)) 1)) (\<lambda>factor2.
        bind_e (dot_vv factor1 factor2) (\<lambda>d.
        bind_e (div_f d (real (fst (shape g) * snd (shape g)))) (\<lambda>q.
        div_f 1 (q + attr_bias g)))))
      else if sc = PyStr ''max_cost'' then
        Inl (NotImplementedError (''Scaling '' @ format_str sc @ '' not implemented.''))
      else if isinstance_str sc then
        Inl (ValueError (''Scaling '' @ format_str sc @ '' not provided.''))
      else Inr 1)"

text \<open>The properties \<^verbatim>\<open>cost_1\<close>, \<^verbatim>\<open>cost_2\<close>, \<^verbatim>\<open>bias\<close> and \<^verbatim>\<open>cost_matrix\<close>.\<close>

definition cost_1 :: "'v LRCGeometry \<Rightarrow> error + ndarray" where
  "cost_1 g =
     bind_e (scale_cost g) (\<lambda>s.
     bind_e (sqrt_f s) (\<lambda>q. Inr (scale_nd (attr_cost_1 g) q)))"

definition cost_2 :: "'v LRCGeometry \<Rightarrow> error + ndarray" where
  "cost_2 g =
     bind_e (scale_cost g) (\<lambda>s.
     bind_e (sqrt_f s) (\<lambda>q. Inr (scale_nd (attr_cost_2 g) q)))"

definition bias :: "'v LRCGeometry \<Rightarrow> error + real" where
  "bias g = bind_e (scale_cost g) (\<lambda>s. Inr (attr_bias g * s))"

definition cost_matrix :: "'v LRCGeometry \<Rightarrow> error + ndarray" where
  "cost_matrix g =
     bind_e (cost_1 g) (\<lambda>c1.
     bind_e (cost_2 g) (\<lambda>c2.
     bind_e (matmul c1 (transpose_nd c2)) (\<lambda>M.
     bind_e (bias g) (\<lambda>b. Inr (add_scalar M b)))))"

subsection \<open>Applying the cost to a vector\<close>

text \<open>
  Modelled from the spec: \<^verbatim>\<open>Geometry._apply_cost_to_vec\<close>, the dense implementation of the
  base class, which is not among the sources. It materialises the cost matrix (of the object it
  is called on), transposed when the vector has the length of the first axis
  (\<^verbatim>\<open>axis = 0\<close>), applies \<^verbatim>\<open>fn\<close> to every entry when there is one, and multiplies.
\<close>

definition Geometry_apply_cost_to_vec ::
  "'v LRCGeometry \<Rightarrow> real list \<Rightarrow> int \<Rightarrow> (real \<Rightarrow> real) option \<Rightarrow> error + real list" where
  "Geometry_apply_cost_to_vec g vec axis fn =
     bind_e (cost_matrix g) (\<lambda>C.
     let matrix = (if axis = 0 then transpose_nd C else C);
         matrix = (case fn of None \<Rightarrow> matrix | Some f \<Rightarrow> map_nd f matrix)
     in dot_mv matrix vec)"

text \<open>The local function \<^verbatim>\<open>efficient_apply\<close> of \<^verbatim>\<open>_apply_cost_to_vec\<close>.\<close>

definition efficient_apply ::
  "'v LRCGeometry \<Rightarrow> real list \<Rightarrow> int \<Rightarrow> (real \<Rightarrow> real) option \<Rightarrow> error + real list" where
  "efficient_apply g vec axis fn =
     bind_e (if axis = 1 then cost_1 g else cost_2 g) (\<lambda>c1.
     bind_e (if axis = 1 then cost_2 g else cost_1 g) (\<lambda>c2.
     let c2 = (case fn of None \<Rightarrow> c2 | Some f \<Rightarrow> map_nd f c2) in
     bind_e (bias g) (\<lambda>b.
     let b = (case fn of None \<Rightarrow> b | Some f \<Rightarrow> f b) in
     bind_e (dot_mv (transpose_nd c2) vec) (\<lambda>w.
     bind_e (dot_mv c1 w) (\<lambda>out.
     Inr (map (\<lambda>x. x + b * sum_list vec * 1) out))))))"

text \<open>
  \<^verbatim>\<open>_apply_cost_to_vec\<close>: both arguments of \<^verbatim>\<open>jnp.where\<close> are computed, the condition
  selects one of them. The predicate \<^verbatim>\<open>geometry.is_linear\<close> is not among the sources and
  is a parameter.
\<close>

definition apply_cost_to_vec ::
  "((real \<Rightarrow> real) \<Rightarrow> bool) \<Rightarrow> 'v LRCGeometry \<Rightarrow> real list \<Rightarrow> int \<Rightarrow> (real \<Rightarrow> real) option
     \<Rightarrow> error + real list" where
  "apply_cost_to_vec is_linear g vec axis fn =
     (let cond = (case fn of None \<Rightarrow> True | Some f \<Rightarrow> is_linear f) in
      bind_e (efficient_apply g vec axis fn) (\<lambda>fast.
      bind_e (Geometry_apply_cost_to_vec g vec axis fn) (\<lambda>slow.
      Inr (if cond then fast else slow))))"

text \<open>
  Modelled from the spec: \<^verbatim>\<open>Geometry.apply_cost\<close> of the base class on a vector, the
  ordinary vector application of the object it is called on, without a function.
\<close>

definition Geometry_apply_cost ::
  "((real \<Rightarrow> real) \<Rightarrow> bool) \<Rightarrow> 'v LRCGeometry \<Rightarrow> real list \<Rightarrow> int \<Rightarrow> error + real list" where
  "Geometry_apply_cost is_linear g arr axis = apply_cost_to_vec is_linear g arr axis None"

text \<open>
  Modelled from the spec: \<^verbatim>\<open>Geometry.apply_square_cost\<close> of the base class, the dense
  fallback: square the entries of the cost matrix, then multiply.
\<close>

definition Geometry_apply_square_cost ::
  "'v LRCGeometry \<Rightarrow> real list \<Rightarrow> int \<Rightarrow> error + real list" where
  "Geometry_apply_square_cost g arr axis =
     Geometry_apply_cost_to_vec g arr axis (Some (\<lambda>x. x ^ 2))"

text \<open>
  \<^verbatim>\<open>apply_square_cost\<close>. The augmented geometry is built with the defaults of
  \<^verbatim>\<open>__init__\<close>: bias \<open>0.0\<close>, no scale, no keyword argument.
\<close>

definition apply_square_cost ::
  "((real \<Rightarrow> real) \<Rightarrow> bool) \<Rightarrow> 'v LRCGeometry \<Rightarrow> real list \<Rightarrow> int \<Rightarrow> error + real list" where
  "apply_square_cost is_linear g arr axis =
     (let n = fst (shape g); m = snd (shape g); r = cost_rank g in
      if n * m < (n + m) * r ^ 2 then Geometry_apply_square_cost g arr axis
      else
        bind_e (cost_1 g) (\<lambda>c1.
        bind_e (cost_2 g) (\<lambda>c2.
        bind_e (outer_reshape c1 n (r ^ 2)) (\<lambda>new_cost_1.
        bind_e (outer_reshape c2 m (r ^ 2)) (\<lambda>new_cost_2.
        bind_e (LRCGeometry_init new_cost_1 new_cost_2 0 PyNone ([] :: (string \<times> 'v) list)) (\<lambda>g2.
        Geometry_apply_cost is_linear g2 arr axis))))))"

subsection \<open>Flattening and merging\<close>

text \<open>
  \<^verbatim>\<open>tree_flatten\<close> gives the children \<^verbatim>\<open>(_cost_1, _cost_2, _kwargs)\<close> and the auxiliary
  data \<^verbatim>\<open>{'bias': _bias, 'scale_cost': _scale_cost}\<close>; \<^verbatim>\<open>tree_unflatten\<close> calls the
  class on them.
\<close>

definition tree_flatten ::
  "'v LRCGeometry \<Rightarrow> (ndarray \<times> ndarray \<times> (string \<times> 'v) list) \<times> (real \<times> pyval)" where
  "tree_flatten g =
     ((attr_cost_1 g, attr_cost_2 g, attr_kwargs g), (attr_bias g, attr_scale_cost g))"

definition tree_unflatten ::
  "real \<times> pyval \<Rightarrow> ndarray \<times> ndarray \<times> (string \<times> 'v) list \<Rightarrow> error + 'v LRCGeometry" where
  "tree_unflatten aux_data children =
     (case children of (c1, c2, kwargs) \<Rightarrow>
      case aux_data of (b, sc) \<Rightarrow> LRCGeometry_init c1 c2 b sc kwargs)"

text \<open>\<^verbatim>\<open>add_lrc_geom\<close>: bias and scale of the result are the defaults of \<^verbatim>\<open>__init__\<close>.\<close>

definition add_lrc_geom :: "'v LRCGeometry \<Rightarrow> 'v LRCGeometry \<Rightarrow> error + 'v LRCGeometry" where
  "add_lrc_geom geom1 geom2 =
     bind_e (cost_1 geom1) (\<lambda>a1.
     bind_e (cost_1 geom2) (\<lambda>b1.
     bind_e (concatenate1 a1 b1) (\<lambda>c1.
     bind_e (cost_2 geom1) (\<lambda>a2.
     bind_e (cost_2 geom2) (\<lambda>b2.
     bind_e (concatenate1 a2 b2) (\<lambda>c2.
     LRCGeometry_init c1 c2 0 PyNone (attr_kwargs geom1)))))))"


subsection \<open>Reference notions and examples\<close>

text \<open>
  The dense matrix the geometry stands for: entry \<open>(i, j)\<close> is the product of row \<open>i\<close> of
  \<open>A\<close> and row \<open>j\<close> of \<open>B\<close>, plus \<open>b\<close>.
\<close>

definition gram :: "ndarray \<Rightarrow> ndarray \<Rightarrow> real \<Rightarrow> ndarray" where
  "gram A B b = \<lparr>shape0 = shape0 A, shape1 = shape0 B,
                 rows = map (\<lambda>u. map (\<lambda>v. dotv u v + b) (rows B)) (rows A)\<rparr>"

text \<open>The array built by \<open>outer_reshape\<close> when the sizes agree.\<close>

definition outer_nd :: "ndarray \<Rightarrow> ndarray" where
  "outer_nd A = \<lparr>shape0 = shape0 A, shape1 = shape1 A ^ 2,
      rows = map (\<lambda>u. concat (map (\<lambda>x. map (\<lambda>y. x * y) u) u)) (rows A)\<rparr>"

text \<open>Concrete arrays and geometries, on which the theorems below are run.\<close>

definition ex_cost_1 :: ndarray where
  "ex_cost_1 = \<lparr>shape0 = 2, shape1 = 1, rows = [[1], [2]]\<rparr>"

definition ex_cost_2 :: ndarray where
  "ex_cost_2 = \<lparr>shape0 = 2, shape1 = 1, rows = [[3], [4]]\<rparr>"

definition ex_cost_3 :: ndarray where
  "ex_cost_3 = \<lparr>shape0 = 2, shape1 = 2, rows = [[1, 0], [0, 1]]\<rparr>"

definition ex_rank0 :: ndarray where
  "ex_rank0 = \<lparr>shape0 = 1, shape1 = 0, rows = [[]]\<rparr>"

definition ex_geom :: "unit LRCGeometry" where
  "ex_geom = \<lparr>attr_cost_1 = ex_cost_1, attr_cost_2 = ex_cost_2, attr_bias = 1,
             attr_kwargs = [], attr_scale_cost = PyFloat 4\<rparr>"

definition ex_geom_unbiased :: "unit LRCGeometry" where
  "ex_geom_unbiased = \<lparr>attr_cost_1 = ex_cost_1, attr_cost_2 = ex_cost_2, attr_bias = 0,
             attr_kwargs = [], attr_scale_cost = PyFloat 4\<rparr>"

definition ex_geom_rank0 :: "unit LRCGeometry" where
  "ex_geom_rank0 = \<lparr>attr_cost_1 = ex_rank0, attr_cost_2 = ex_rank0, attr_bias = 0,
             attr_kwargs = [], attr_scale_cost = PyNone\<rparr>"

definition ex_geom_of :: "pyval \<Rightarrow> unit LRCGeometry" where
  "ex_geom_of sc = \<lparr>attr_cost_1 = ex_cost_1, attr_cost_2 = ex_cost_2, attr_bias = 1,
             attr_kwargs = [], attr_scale_cost = sc\<rparr>"

text \<open>
  Two notions of the spec's statements that the source does not compute: the sum of two
  arrays of the same shape, entry by entry, and the mean of the entries of an array
  (\<^verbatim>\<open>jnp.mean\<close>).
\<close>

definition add_nd :: "ndarray \<Rightarrow> ndarray \<Rightarrow> ndarray" where
  "add_nd A B = \<lparr>shape0 = shape0 A, shape1 = shape1 A,
                 rows = map2 (map2 (\<lambda>x y. x + y)) (rows A) (rows B)\<rparr>"

definition mean_nd :: "ndarray \<Rightarrow> real" where
  "mean_nd A = sum_list (concat (rows A)) / real (shape0 A * shape1 A)"

text \<open>More concrete arrays and geometries.\<close>

definition ex_zero :: ndarray where
  "ex_zero = \<lparr>shape0 = 1, shape1 = 1, rows = [[0]]\<rparr>"

definition ex_one :: ndarray where
  "ex_one = \<lparr>shape0 = 1, shape1 = 1, rows = [[1]]\<rparr>"

definition ex_neg :: ndarray where
  "ex_neg = \<lparr>shape0 = 1, shape1 = 1, rows = [[- 1]]\<rparr>"

definition ex_geom_zero :: "unit LRCGeometry" where
  "ex_geom_zero = \<lparr>attr_cost_1 = ex_zero, attr_cost_2 = ex_zero, attr_bias = 0,
             attr_kwargs = [], attr_scale_cost = PyStr ''max_bound''\<rparr>"

definition ex_geom_neg_mean :: "unit LRCGeometry" where
  "ex_geom_neg_mean = \<lparr>attr_cost_1 = ex_one, attr_cost_2 = ex_neg, attr_bias = 0,
             attr_kwargs = [], attr_scale_cost = PyStr ''mean''\<rparr>"

definition ex_geom_max_bound :: "unit LRCGeometry" where
  "ex_geom_max_bound = \<lparr>attr_cost_1 = ex_cost_1, attr_cost_2 = ex_neg, attr_bias = 2,
             attr_kwargs = [], attr_scale_cost = PyStr ''max_bound''\<rparr>"

definition ex_geom_plain :: "unit LRCGeometry" where
  "ex_geom_plain = \<lparr>attr_cost_1 = ex_cost_2, attr_cost_2 = ex_cost_1, attr_bias = 0,
             attr_kwargs = [], attr_scale_cost = PyNone\<rparr>"

definition ex_geom_small :: "unit LRCGeometry" where
  "ex_geom_small = \<lparr>attr_cost_1 = ex_one, attr_cost_2 = ex_one, attr_bias = 0,
             attr_kwargs = [], attr_scale_cost = PyNone\<rparr>"


section \<open>Auxiliary facts\<close>

subsection \<open>Sequencing and well-formed arrays\<close>

lemma bind_e_Inl [simp]: "bind_e (Inl e) f = Inl e" by (simp add: bind_e_def)
lemma bind_e_Inr [simp]: "bind_e (Inr x) f = f x" by (simp add: bind_e_def)

lemma wf_ndarrayD:
  "wf_ndarray A \<Longrightarrow> length (rows A) = shape0 A"
  "wf_ndarray A \<Longrightarrow> u \<in> set (rows A) \<Longrightarrow> length u = shape1 A"
  by (auto simp: wf_ndarray_def list_all_iff)

lemma map_nd_simps [simp]:
  "shape0 (map_nd f A) = shape0 A" "shape1 (map_nd f A) = shape1 A"
  "rows (map_nd f A) = map (map f) (rows A)"
  by (simp_all add: map_nd_def)

lemma wf_map_nd: "wf_ndarray A \<Longrightarrow> wf_ndarray (map_nd f A)"
  by (auto simp: wf_ndarray_def list_all_iff)

lemma transpose_nd_simps [simp]:
  "shape0 (transpose_nd A) = shape1 A" "shape1 (transpose_nd A) = shape0 A"
  "rows (transpose_nd A) = map (\<lambda>k. map (\<lambda>u. u ! k) (rows A)) [0..<shape1 A]"
  by (simp_all add: transpose_nd_def)

lemma wf_transpose_nd: "wf_ndarray A \<Longrightarrow> wf_ndarray (transpose_nd A)"
  by (auto simp: wf_ndarray_def list_all_iff)

lemma rows_transpose_transpose:
  assumes "wf_ndarray A"
  shows "rows (transpose_nd (transpose_nd A)) = rows A"
proof (rule nth_equalityI)
  show "length (rows (transpose_nd (transpose_nd A))) = length (rows A)"
    using assms by (simp add: wf_ndarrayD)
next
  fix i assume "i < length (rows (transpose_nd (transpose_nd A)))"
  then have i: "i < shape0 A" by simp
  then have li: "length (rows A ! i) = shape1 A"
    using assms by (simp add: wf_ndarrayD)
  have "rows (transpose_nd (transpose_nd A)) ! i = map (\<lambda>k. rows A ! i ! k) [0..<shape1 A]"
    using i assms by (simp add: wf_ndarrayD(1) comp_def)
  also have "\<dots> = rows A ! i"
    using li by (metis map_nth)
  finally show "rows (transpose_nd (transpose_nd A)) ! i = rows A ! i" .
qed

subsection \<open>Dot products as sums\<close>

lemma dotv_sum:
  "length u = length v \<Longrightarrow> dotv u v = (\<Sum>k<length u. u ! k * v ! k)"
  by (simp add: dotv_def sum_list_sum_nth atLeast0LessThan)

lemma dotv_commute: "dotv u v = dotv v u"
proof -
  have "map2 (\<lambda>x y. x * y) u v = map2 (\<lambda>x y. x * y) v u"
    by (induction u arbitrary: v) (auto simp: mult.commute split: list.splits, case_tac v, auto simp: mult.commute)
  then show ?thesis by (simp add: dotv_def)
qed

lemma sum_list_sum: "sum_list (xs::real list) = (\<Sum>j<length xs. xs ! j)"
  by (simp add: sum_list_sum_nth atLeast0LessThan)

lemma fast_entry:
  assumes len: "\<forall>v\<in>set R2. length v = length u" and lv: "length vec = length R2"
  shows "dotv u (map (\<lambda>k. dotv (map (\<lambda>v. v ! k) R2) vec) [0..<length u]) + b * sum_list vec
       = dotv (map (\<lambda>v. dotv u v + b) R2) vec"
proof -
  let ?r = "length u" and ?m = "length R2"
  have "dotv u (map (\<lambda>k. dotv (map (\<lambda>v. v ! k) R2) vec) [0..<?r])
      = (\<Sum>k<?r. u ! k * (\<Sum>j<?m. R2 ! j ! k * vec ! j))"
    using lv by (simp add: dotv_sum)
  also have "\<dots> = (\<Sum>k<?r. \<Sum>j<?m. u ! k * R2 ! j ! k * vec ! j)"
    by (simp add: sum_distrib_left mult.assoc)
  also have "\<dots> = (\<Sum>j<?m. \<Sum>k<?r. u ! k * R2 ! j ! k * vec ! j)"
    by (rule sum.swap)
  finally have lhs: "dotv u (map (\<lambda>k. dotv (map (\<lambda>v. v ! k) R2) vec) [0..<?r])
      = (\<Sum>j<?m. \<Sum>k<?r. u ! k * R2 ! j ! k * vec ! j)" .
  have "dotv (map (\<lambda>v. dotv u v + b) R2) vec = (\<Sum>j<?m. (dotv u (R2 ! j) + b) * vec ! j)"
    using lv by (simp add: dotv_sum)
  also have "\<dots> = (\<Sum>j<?m. ((\<Sum>k<?r. u ! k * R2 ! j ! k) + b) * vec ! j)"
    using len by (intro sum.cong refl) (simp add: dotv_sum)
  also have "\<dots> = (\<Sum>j<?m. \<Sum>k<?r. u ! k * R2 ! j ! k * vec ! j) + b * (\<Sum>j<?m. vec ! j)"
    by (simp add: distrib_right sum.distrib sum_distrib_left sum_distrib_right)
  finally show ?thesis using lhs lv by (simp add: sum_list_sum)
qed


subsection \<open>The dense cost matrix\<close>

lemma matmul_transpose:
  assumes "wf_ndarray B" "shape1 A = shape1 B"
  shows "matmul A (transpose_nd B) =
     Inr \<lparr>shape0 = shape0 A, shape1 = shape0 B, rows = map (\<lambda>u. map (dotv u) (rows B)) (rows A)\<rparr>"
  using assms rows_transpose_transpose [OF assms(1)] by (simp add: matmul_def)

lemma map_nth_fun: "map (\<lambda>j. f (xs ! j)) [0..<length xs] = map f xs"
  by (rule nth_equalityI) simp_all

lemma transpose_gram:
  assumes "wf_ndarray A" "wf_ndarray B"
  shows "transpose_nd (gram A B b) = gram B A b"
proof -
  have "map (\<lambda>j. map (\<lambda>u. u ! j) (map (\<lambda>u. map (\<lambda>v. dotv u v + b) (rows B)) (rows A))) [0..<length (rows B)]
      = map (\<lambda>j. map (\<lambda>u. dotv (rows B ! j) u + b) (rows A)) [0..<length (rows B)]"
    by (simp add: comp_def dotv_commute)
  also have "\<dots> = map (\<lambda>v. map (\<lambda>u. dotv v u + b) (rows A)) (rows B)"
    by (rule map_nth_fun)
  finally show ?thesis
    using assms by (simp add: gram_def transpose_nd_def wf_ndarrayD(1))
qed

lemma wf_gram: "wf_ndarray A \<Longrightarrow> wf_ndarray B \<Longrightarrow> wf_ndarray (gram A B b)"
  by (simp add: gram_def wf_ndarray_def list_all_iff)

lemma fast_eq_dense:
  assumes "wf_ndarray A" "wf_ndarray B" "shape1 A = shape1 B" "length vec = shape0 B"
  shows "bind_e (dot_mv (transpose_nd B) vec) (\<lambda>w.
           bind_e (dot_mv A w) (\<lambda>out. Inr (map (\<lambda>x. x + b * sum_list vec * 1) out)))
         = Inr (map (\<lambda>u. dotv u vec) (rows (gram A B b)))"
proof -
  have "map (\<lambda>u. dotv u (map (\<lambda>k. dotv (map (\<lambda>v. v ! k) (rows B)) vec) [0..<shape1 B]) + b * sum_list vec) (rows A)
      = map (\<lambda>u. dotv (map (\<lambda>v. dotv u v + b) (rows B)) vec) (rows A)"
  proof (rule map_cong [OF refl])
    fix u assume u: "u \<in> set (rows A)"
    then have lu: "length u = shape1 B" using assms by (simp add: wf_ndarrayD)
    have "\<forall>v\<in>set (rows B). length v = length u"
      using assms lu by (simp add: wf_ndarrayD)
    moreover have "length vec = length (rows B)" using assms by (simp add: wf_ndarrayD)
    ultimately show "dotv u (map (\<lambda>k. dotv (map (\<lambda>v. v ! k) (rows B)) vec) [0..<shape1 B]) + b * sum_list vec
        = dotv (map (\<lambda>v. dotv u v + b) (rows B)) vec"
      using fast_entry [of "rows B" u vec b] lu by simp
  qed
  then show ?thesis using assms by (simp add: dot_mv_def gram_def comp_def)
qed


lemma scale_nd_simps [simp]:
  "shape0 (scale_nd A s) = shape0 A" "shape1 (scale_nd A s) = shape1 A"
  "rows (scale_nd A s) = map (map (\<lambda>x. x * s)) (rows A)"
  by (simp_all add: scale_nd_def)

lemma wf_scale_nd: "wf_ndarray A \<Longrightarrow> wf_ndarray (scale_nd A s)"
  by (simp add: scale_nd_def wf_map_nd)

lemma add_scalar_matmul:
  "add_scalar \<lparr>shape0 = n, shape1 = m, rows = map (\<lambda>u. map (dotv u) R2) R1\<rparr> b
     = \<lparr>shape0 = n, shape1 = m, rows = map (\<lambda>u. map (\<lambda>v. dotv u v + b) R2) R1\<rparr>"
  by (simp add: add_scalar_def map_nd_def comp_def)

lemma scaled_factors:
  assumes "scale_cost g = Inr s" "0 \<le> s"
  shows "cost_1 g = Inr (scale_nd (attr_cost_1 g) (sqrt s))"
    and "cost_2 g = Inr (scale_nd (attr_cost_2 g) (sqrt s))"
    and "bias g = Inr (attr_bias g * s)"
  using assms by (simp_all add: cost_1_def cost_2_def bias_def sqrt_f_def)

lemma cost_matrix_gram:
  assumes "wf_ndarray (attr_cost_2 g)" "shape1 (attr_cost_1 g) = shape1 (attr_cost_2 g)"
    and "scale_cost g = Inr s" "0 \<le> s"
  shows "cost_matrix g =
     Inr (gram (scale_nd (attr_cost_1 g) (sqrt s)) (scale_nd (attr_cost_2 g) (sqrt s)) (attr_bias g * s))"
proof -
  have "matmul (scale_nd (attr_cost_1 g) (sqrt s)) (transpose_nd (scale_nd (attr_cost_2 g) (sqrt s)))
      = Inr \<lparr>shape0 = shape0 (attr_cost_1 g), shape1 = shape0 (attr_cost_2 g),
             rows = map (\<lambda>u. map (dotv u) (rows (scale_nd (attr_cost_2 g) (sqrt s))))
                        (rows (scale_nd (attr_cost_1 g) (sqrt s)))\<rparr>"
    using matmul_transpose [of "scale_nd (attr_cost_2 g) (sqrt s)" "scale_nd (attr_cost_1 g) (sqrt s)"]
      assms(1,2) by (simp add: wf_scale_nd)
  then show ?thesis
    using scaled_factors [OF assms(3,4)]
    by (simp add: cost_matrix_def add_scalar_matmul gram_def del: scale_nd_simps(3))
qed

subsection \<open>Outer-product expansion\<close>

lemma dotv_Nil [simp]: "dotv [] v = 0" "dotv u [] = 0"
  by (simp_all add: dotv_def)

lemma dotv_Cons [simp]: "dotv (x # u) (y # v) = x * y + dotv u v"
  by (simp add: dotv_def)

lemma dotv_append:
  "length u = length v \<Longrightarrow> dotv (u @ u') (v @ v') = dotv u v + dotv u' v'"
  by (induction u v rule: list_induct2) simp_all

lemma dotv_map_scale:
  "dotv (map (\<lambda>z. x * z) u) (map (\<lambda>z. y * z) v) = x * y * dotv u v"
proof (induction u arbitrary: v)
  case Nil
  then show ?case by simp
next
  case (Cons a u)
  then show ?case by (cases v) (simp_all add: algebra_simps)
qed

lemma dotv_outer:
  assumes "length u = length v" "length u' = length v'"
  shows "dotv (concat (map (\<lambda>x. map (\<lambda>y. x * y) u') u)) (concat (map (\<lambda>x. map (\<lambda>y. x * y) v') v))
       = dotv u v * dotv u' v'"
  using assms(1)
proof (induction u v rule: list_induct2)
  case Nil
  then show ?case by simp
next
  case (Cons x u y v)
  then show ?case
    using assms(2) by (simp add: dotv_append dotv_map_scale algebra_simps)
qed

lemma length_outer: "length (concat (map (\<lambda>x. map (\<lambda>y. x * y) u) u)) = length u * length u"
  by (simp add: length_concat comp_def sum_list_triv)

lemma outer_reshape_eq: "outer_reshape A (shape0 A) (shape1 A ^ 2) = Inr (outer_nd A)"
  by (simp add: outer_reshape_def outer_nd_def power2_eq_square)

lemma wf_outer_nd: "wf_ndarray A \<Longrightarrow> wf_ndarray (outer_nd A)"
  by (auto simp: wf_ndarray_def outer_nd_def list_all_iff length_outer power2_eq_square)

lemma gram_outer:
  assumes "wf_ndarray A" "wf_ndarray B" "shape1 A = shape1 B"
  shows "gram (outer_nd A) (outer_nd B) 0 = map_nd (\<lambda>x. x ^ 2) (gram A B 0)"
proof -
  have "map (\<lambda>u. map (\<lambda>v. dotv (concat (map (\<lambda>x. map (\<lambda>y. x * y) u) u))
                                 (concat (map (\<lambda>x. map (\<lambda>y. x * y) v) v))) (rows B)) (rows A)
      = map (\<lambda>u. map (\<lambda>v. (dotv u v)\<^sup>2) (rows B)) (rows A)"
  proof (intro map_cong refl)
    fix u v assume "u \<in> set (rows A)" "v \<in> set (rows B)"
    then have "length u = length v" using assms by (simp add: wf_ndarrayD)
    then show "dotv (concat (map (\<lambda>x. map (\<lambda>y. x * y) u) u)) (concat (map (\<lambda>x. map (\<lambda>y. x * y) v) v))
          = (dotv u v)\<^sup>2"
      by (simp add: dotv_outer power2_eq_square)
  qed
  then show ?thesis
    by (simp add: gram_def outer_nd_def map_nd_def comp_def)
qed

lemma scale_nd_one [simp]: "scale_nd A 1 = A"
  by (simp add: scale_nd_def map_nd_def)

subsection \<open>Values of the vector applications\<close>

lemma apply_values:
  assumes wf: "wf_ndarray (attr_cost_1 g)" "wf_ndarray (attr_cost_2 g)"
    and cols: "shape1 (attr_cost_1 g) = shape1 (attr_cost_2 g)"
    and sc: "scale_cost g = Inr s" "0 \<le> s"
    and ax: "axis = 0 \<or> axis = 1"
    and len: "length vec = (if axis = 0 then fst (shape g) else snd (shape g))"
  defines "A \<equiv> scale_nd (attr_cost_1 g) (sqrt s)" and "B \<equiv> scale_nd (attr_cost_2 g) (sqrt s)"
  defines "G \<equiv> (if axis = 0 then gram B A (attr_bias g * s) else gram A B (attr_bias g * s))"
  shows "efficient_apply g vec axis None = Inr (map (\<lambda>u. dotv u vec) (rows G))"
    and "Geometry_apply_cost_to_vec g vec axis fn =
           Inr (map (\<lambda>u. dotv u vec) (rows (case fn of None \<Rightarrow> G | Some f \<Rightarrow> map_nd f G)))"
    and "apply_cost_to_vec is_linear g vec axis None = Inr (map (\<lambda>u. dotv u vec) (rows G))"
    and "dot_mv G vec = Inr (map (\<lambda>u. dotv u vec) (rows G))"
proof -
  let ?b = "attr_bias g * s"
  have wfA: "wf_ndarray A" and wfB: "wf_ndarray B" using wf by (simp_all add: wf_scale_nd A_def B_def)
  have cm: "cost_matrix g = Inr (gram A B ?b)"
    unfolding A_def B_def using cost_matrix_gram [OF wf(2) cols sc] .
  have sf: "cost_1 g = Inr A" "cost_2 g = Inr B" "bias g = Inr ?b"
    unfolding A_def B_def using scaled_factors [OF sc] by simp_all
  have tg: "transpose_nd (gram A B ?b) = gram B A ?b"
    by (rule transpose_gram [OF wfA wfB])
  have colsAB: "shape1 A = shape1 B" "shape1 B = shape1 A" using cols by (simp_all add: A_def B_def)
  have lv: "length vec = shape1 G"
    using len ax by (auto simp: G_def gram_def shape_def A_def B_def)
  show 1: "efficient_apply g vec axis None = Inr (map (\<lambda>u. dotv u vec) (rows G))"
  proof (cases "axis = 0")
    case True
    then have "length vec = shape0 A" using len by (simp add: shape_def A_def)
    then show ?thesis
      using fast_eq_dense [OF wfB wfA colsAB(2), of vec ?b] True sf by (simp add: efficient_apply_def G_def)
  next
    case False
    then have "length vec = shape0 B" using len by (simp add: shape_def B_def)
    then show ?thesis
      using fast_eq_dense [OF wfA wfB colsAB(1), of vec ?b] False ax sf by (simp add: efficient_apply_def G_def)
  qed
  show 2: "Geometry_apply_cost_to_vec g vec axis fn =
           Inr (map (\<lambda>u. dotv u vec) (rows (case fn of None \<Rightarrow> G | Some f \<Rightarrow> map_nd f G)))" for fn
    using cm tg lv by (cases fn) (simp_all add: Geometry_apply_cost_to_vec_def G_def dot_mv_def)
  show "apply_cost_to_vec is_linear g vec axis None = Inr (map (\<lambda>u. dotv u vec) (rows G))"
    using 1 2 [of None] by (simp add: apply_cost_to_vec_def)
  show "dot_mv G vec = Inr (map (\<lambda>u. dotv u vec) (rows G))"
    using lv by (simp add: dot_mv_def)
qed

lemma scale_cost_PyNone: "attr_scale_cost g = PyNone \<Longrightarrow> scale_cost g = Inr 1"
  by (simp add: scale_cost_def)

subsection \<open>Concatenation of factors\<close>

lemma gram_concat_rows:
  assumes wf: "wf_ndarray A1" "wf_ndarray A2" "wf_ndarray B1" "wf_ndarray B2"
    and cols: "shape1 A1 = shape1 A2"
    and n: "shape0 A1 = shape0 B1" and m: "shape0 A2 = shape0 B2"
  shows "map (\<lambda>u. map (\<lambda>v. dotv u v + 0) (map2 (\<lambda>u v. u @ v) (rows A2) (rows B2)))
             (map2 (\<lambda>u v. u @ v) (rows A1) (rows B1))
       = map2 (map2 (\<lambda>x y. x + y))
           (map (\<lambda>u. map (\<lambda>v. dotv u v + 0) (rows A2)) (rows A1))
           (map (\<lambda>u. map (\<lambda>v. dotv u v + 0) (rows B2)) (rows B1))"
proof -
  have l1: "length (rows A1) = length (rows B1)" using wf n by (simp add: wf_ndarrayD(1))
  have l2: "length (rows A2) = length (rows B2)" using wf m by (simp add: wf_ndarrayD(1))
  show ?thesis
  proof (rule nth_equalityI)
    show "length (map (\<lambda>u. map (\<lambda>v. dotv u v + 0) (map2 (\<lambda>u v. u @ v) (rows A2) (rows B2)))
             (map2 (\<lambda>u v. u @ v) (rows A1) (rows B1)))
       = length (map2 (map2 (\<lambda>x y. x + y))
           (map (\<lambda>u. map (\<lambda>v. dotv u v + 0) (rows A2)) (rows A1))
           (map (\<lambda>u. map (\<lambda>v. dotv u v + 0) (rows B2)) (rows B1)))"
      using l1 by simp
  next
    fix i
    assume "i < length (map (\<lambda>u. map (\<lambda>v. dotv u v + 0) (map2 (\<lambda>u v. u @ v) (rows A2) (rows B2)))
             (map2 (\<lambda>u v. u @ v) (rows A1) (rows B1)))"
    then have i: "i < length (rows A1)" "i < length (rows B1)" using l1 by simp_all
    then have li: "length (rows A1 ! i) = shape1 A2"
      using wf(1) cols by (simp add: wf_ndarrayD(2))
    have "map (\<lambda>v. dotv (rows A1 ! i @ rows B1 ! i) v + 0) (map2 (\<lambda>u v. u @ v) (rows A2) (rows B2))
        = map2 (\<lambda>x y. x + y) (map (\<lambda>v. dotv (rows A1 ! i) v + 0) (rows A2))
                               (map (\<lambda>v. dotv (rows B1 ! i) v + 0) (rows B2))"
    proof (rule nth_equalityI)
      show "length (map (\<lambda>v. dotv (rows A1 ! i @ rows B1 ! i) v + 0) (map2 (\<lambda>u v. u @ v) (rows A2) (rows B2)))
          = length (map2 (\<lambda>x y. x + y) (map (\<lambda>v. dotv (rows A1 ! i) v + 0) (rows A2))
                               (map (\<lambda>v. dotv (rows B1 ! i) v + 0) (rows B2)))"
        using l2 by simp
    next
      fix j
      assume "j < length (map (\<lambda>v. dotv (rows A1 ! i @ rows B1 ! i) v + 0) (map2 (\<lambda>u v. u @ v) (rows A2) (rows B2)))"
      then have j: "j < length (rows A2)" "j < length (rows B2)" using l2 by simp_all
      then have "length (rows A2 ! j) = shape1 A2"
        using wf(2) by (simp add: wf_ndarrayD(2))
      then have "dotv (rows A1 ! i @ rows B1 ! i) (rows A2 ! j @ rows B2 ! j)
          = dotv (rows A1 ! i) (rows A2 ! j) + dotv (rows B1 ! i) (rows B2 ! j)"
        using li by (simp add: dotv_append)
      then show "map (\<lambda>v. dotv (rows A1 ! i @ rows B1 ! i) v + 0) (map2 (\<lambda>u v. u @ v) (rows A2) (rows B2)) ! j
          = map2 (\<lambda>x y. x + y) (map (\<lambda>v. dotv (rows A1 ! i) v + 0) (rows A2))
                               (map (\<lambda>v. dotv (rows B1 ! i) v + 0) (rows B2)) ! j"
        using j by simp
    qed
    then show "map (\<lambda>u. map (\<lambda>v. dotv u v + 0) (map2 (\<lambda>u v. u @ v) (rows A2) (rows B2)))
             (map2 (\<lambda>u v. u @ v) (rows A1) (rows B1)) ! i
       = map2 (map2 (\<lambda>x y. x + y))
           (map (\<lambda>u. map (\<lambda>v. dotv u v + 0) (rows A2)) (rows A1))
           (map (\<lambda>u. map (\<lambda>v. dotv u v + 0) (rows B2)) (rows B1)) ! i"
      using i by simp
  qed
qed

lemma wf_concat:
  assumes "wf_ndarray A" "wf_ndarray B" "shape0 A = shape0 B"
  shows "wf_ndarray \<lparr>shape0 = shape0 A, shape1 = shape1 A + shape1 B,
                     rows = map2 (\<lambda>u v. u @ v) (rows A) (rows B)\<rparr>"
  using assms by (auto simp: wf_ndarray_def list_all_iff dest!: set_zip_leftD set_zip_rightD
      elim!: in_set_zipE)

subsection \<open>Maxima under scaling\<close>

lemma fold_max_ge: "(a::real) \<le> fold max ys a"
proof (induction ys arbitrary: a)
  case Nil
  then show ?case by simp
next
  case (Cons y ys)
  have "a \<le> max y a" by simp
  also have "\<dots> \<le> fold max ys (max y a)" by (rule Cons.IH)
  finally show ?case by simp
qed

lemma fold_max_scale:
  assumes "0 \<le> (q::real)"
  shows "fold max (map abs (map (\<lambda>x. x * q) xs)) (a * q) = fold max (map abs xs) a * q"
proof (induction xs arbitrary: a)
  case Nil
  then show ?case by simp
next
  case (Cons x xs)
  have "max \<bar>x * q\<bar> (a * q) = max \<bar>x\<bar> a * q"
    using assms by (simp add: abs_mult max_mult_distrib_right)
  then show ?case using Cons.IH [of "max \<bar>x\<bar> a"] by simp
qed

lemma max_abs_nonneg: "max_abs A = Inr m \<Longrightarrow> 0 \<le> m"
proof -
  assume a: "max_abs A = Inr m"
  then obtain x xs where "concat (rows A) = x # xs" and m: "m = fold max (map abs xs) \<bar>x\<bar>"
    by (auto simp: max_abs_def split: list.splits)
  have "0 \<le> \<bar>x\<bar>" by simp
  also have "\<dots> \<le> m" unfolding m by (rule fold_max_ge)
  finally show ?thesis .
qed

lemma max_abs_scale:
  assumes "max_abs A = Inr m" "0 \<le> q"
  shows "max_abs (scale_nd A q) = Inr (m * q)"
proof -
  from assms(1) obtain x xs where c: "concat (rows A) = x # xs" and m: "m = fold max (map abs xs) \<bar>x\<bar>"
    by (auto simp: max_abs_def split: list.splits)
  have "concat (rows (scale_nd A q)) = map (\<lambda>x. x * q) (concat (rows A))"
    by (simp add: map_concat)
  then have "concat (rows (scale_nd A q)) = x * q # map (\<lambda>x. x * q) xs"
    using c by simp
  then have "max_abs (scale_nd A q) = Inr (fold max (map abs (map (\<lambda>x. x * q) xs)) \<bar>x * q\<bar>)"
    by (simp add: max_abs_def)
  also have "\<bar>x * q\<bar> = \<bar>x\<bar> * q" using assms(2) by (simp add: abs_mult)
  finally show ?thesis using fold_max_scale [OF assms(2), of xs "\<bar>x\<bar>"] m by simp
qed

lemma bound_arith:
  fixes s :: real
  assumes "(p1 * p2 + \<bar>b\<bar>) * s = 1" "0 \<le> s"
  shows "(p1 * sqrt s) * (p2 * sqrt s) + \<bar>b * s\<bar> = 1"
proof -
  have "(p1 * sqrt s) * (p2 * sqrt s) = p1 * p2 * (sqrt s * sqrt s)"
    by (simp add: mult.assoc mult.left_commute)
  also have "sqrt s * sqrt s = s" using assms(2) by simp
  finally have "(p1 * sqrt s) * (p2 * sqrt s) + \<bar>b * s\<bar> = p1 * p2 * s + \<bar>b\<bar> * s"
    using assms(2) by (simp add: abs_mult)
  also have "\<dots> = (p1 * p2 + \<bar>b\<bar>) * s" by (simp add: distrib_right)
  finally show ?thesis using assms(1) by simp
qed

subsection \<open>Sums of entries and means\<close>

lemma dotv_ones_left: "length xs = n \<Longrightarrow> dotv (replicate n 1) xs = sum_list xs"
  by (induction xs arbitrary: n) auto

lemma dotv_ones_right: "length xs = n \<Longrightarrow> dotv xs (replicate n 1) = sum_list xs"
  by (induction xs arbitrary: n) auto

lemma sum_list_map_nth: "sum_list (map f xs) = (\<Sum>i<length xs. f (xs ! i))"
  by (simp add: sum_list_sum_nth atLeast0LessThan)

lemma sum_list_concat_map: "sum_list (concat xss) = sum_list (map sum_list xss)"
  for xss :: "real list list"
  by (induction xss) simp_all

lemma sum_gram:
  assumes wf: "wf_ndarray A" "wf_ndarray B" and cols: "shape1 A = shape1 B"
  shows "sum_list (concat (rows (gram A B b)))
       = dotv (map (dotv (replicate (shape0 A) 1)) (rows (transpose_nd A)))
              (map (\<lambda>u. dotv u (replicate (shape0 B) 1)) (rows (transpose_nd B)))
         + real (shape0 A * shape0 B) * b"
proof -
  let ?n = "shape0 A" and ?m = "shape0 B" and ?r = "shape1 A"
  let ?a = "\<lambda>i k. rows A ! i ! k" and ?b = "\<lambda>j k. rows B ! j ! k"
  have ln: "length (rows A) = ?n" and lm: "length (rows B) = ?m"
    using wf by (simp_all add: wf_ndarrayD(1))
  have dv: "dotv (rows A ! i) (rows B ! j) = (\<Sum>k<?r. ?a i k * ?b j k)" if "i < ?n" "j < ?m" for i j
  proof -
    have "length (rows A ! i) = ?r" "length (rows B ! j) = ?r"
      using that wf cols ln lm by (simp_all add: wf_ndarrayD(2))
    then show ?thesis by (simp add: dotv_sum)
  qed
  have "sum_list (concat (rows (gram A B b)))
      = (\<Sum>i<?n. \<Sum>j<?m. dotv (rows A ! i) (rows B ! j) + b)"
    by (simp add: gram_def sum_list_concat_map comp_def sum_list_map_nth ln lm)
  also have "\<dots> = (\<Sum>i<?n. \<Sum>j<?m. (\<Sum>k<?r. ?a i k * ?b j k) + b)"
    by (intro sum.cong refl) (simp add: dv)
  also have "\<dots> = (\<Sum>i<?n. \<Sum>j<?m. \<Sum>k<?r. ?a i k * ?b j k) + real (?n * ?m) * b"
    by (simp add: sum.distrib)
  finally have lhs: "sum_list (concat (rows (gram A B b)))
      = (\<Sum>i<?n. \<Sum>j<?m. \<Sum>k<?r. ?a i k * ?b j k) + real (?n * ?m) * b" .
  have "dotv (map (dotv (replicate ?n 1)) (rows (transpose_nd A)))
             (map (\<lambda>u. dotv u (replicate ?m 1)) (rows (transpose_nd B)))
      = (\<Sum>k<?r. (\<Sum>i<?n. ?a i k) * (\<Sum>j<?m. ?b j k))"
    using cols by (simp add: dotv_sum dotv_ones_left dotv_ones_right ln lm sum_list_map_nth)
  also have "\<dots> = (\<Sum>k<?r. \<Sum>i<?n. \<Sum>j<?m. ?a i k * ?b j k)"
    by (simp add: sum_product)
  also have "\<dots> = (\<Sum>i<?n. \<Sum>k<?r. \<Sum>j<?m. ?a i k * ?b j k)"
    by (rule sum.swap)
  also have "\<dots> = (\<Sum>i<?n. \<Sum>j<?m. \<Sum>k<?r. ?a i k * ?b j k)"
  proof (rule sum.cong [OF refl])
    fix i
    show "(\<Sum>k<?r. \<Sum>j<?m. ?a i k * ?b j k) = (\<Sum>j<?m. \<Sum>k<?r. ?a i k * ?b j k)"
      by (rule sum.swap)
  qed
  finally show ?thesis using lhs by simp
qed

lemma dotv_scale_both: "dotv (map (\<lambda>x. x * q) u) (map (\<lambda>x. x * q) v) = dotv u v * (q * q)"
proof (induction u arbitrary: v)
  case Nil
  then show ?case by simp
next
  case (Cons a u)
  then show ?case by (cases v) (simp_all add: algebra_simps)
qed

lemma gram_scale:
  assumes "q * q = s"
  shows "gram (scale_nd A q) (scale_nd B q) (b * s) = scale_nd (gram A B b) s"
  using assms by (simp add: gram_def scale_nd_def map_nd_def comp_def dotv_scale_both distrib_right)

lemma sum_list_concat_scale:
  "sum_list (concat (map (map (\<lambda>x. x * (s::real))) xss)) = sum_list (concat xss) * s"
  by (induction xss) (simp_all add: sum_list_mult_const distrib_right)

lemma mean_nd_scale: "mean_nd (scale_nd A s) = mean_nd A * s"
  by (simp add: mean_nd_def sum_list_concat_scale)

subsection \<open>Conditionals\<close>

lemma if_trueD: "(if P then A else B) \<Longrightarrow> P \<Longrightarrow> A"
  by simp

lemma if_falseD: "(if P then A else B) \<Longrightarrow> \<not> P \<Longrightarrow> B"
  by simp

subsection \<open>Index descriptions of the array operations\<close>

text \<open>
  The array operations meet their index descriptions: entry \<open>(i, k * r + l)\<close> of the
  reshaped outer product is \<open>A[i, k] * A[i, l]\<close>, and entry \<open>(i, j)\<close> of a matrix product
  is the sum over \<open>k\<close> of \<open>A[i, k] * B[k, j]\<close>.
\<close>

lemma outer_entry:
  "k < length u \<Longrightarrow> l < length w \<Longrightarrow>
     concat (map (\<lambda>x. map (\<lambda>y. x * y) w) u) ! (k * length w + l) = (u ! k * w ! l :: real)"
proof (induction u arbitrary: k)
  case Nil
  then show ?case by simp
next
  case (Cons a u)
  show ?case
  proof (cases k)
    case 0
    then show ?thesis using Cons.prems by (simp add: nth_append)
  next
    case (Suc k')
    then have "k' < length u" using Cons.prems by simp
    then have "concat (map (\<lambda>x. map (\<lambda>y. x * y) w) u) ! (k' * length w + l) = u ! k' * w ! l"
      using Cons.prems(2) by (rule Cons.IH)
    then show ?thesis using Suc by (simp add: nth_append)
  qed
qed

lemma outer_reshape_entry:
  assumes "wf_ndarray A" "outer_reshape A n r2 = Inr N"
    and "i < shape0 A" "k < shape1 A" "l < shape1 A"
  shows "rows N ! i ! (k * shape1 A + l) = rows A ! i ! k * rows A ! i ! l"
proof -
  have li: "length (rows A ! i) = shape1 A" and i: "i < length (rows A)"
    using assms(1,3) by (simp_all add: wf_ndarrayD)
  have "rows N = map (\<lambda>u. concat (map (\<lambda>x. map (\<lambda>y. x * y) u) u)) (rows A)"
    using assms(2) by (auto simp: outer_reshape_def split: if_splits)
  then have "rows N ! i = concat (map (\<lambda>x. map (\<lambda>y. x * y) (rows A ! i)) (rows A ! i))"
    using i by simp
  then show ?thesis
    using outer_entry [of k "rows A ! i" l "rows A ! i"] li assms(4,5) by simp
qed

lemma matmul_entry:
  assumes "wf_ndarray A" "wf_ndarray B" "matmul A B = Inr M"
    and "i < shape0 A" "j < shape1 B"
  shows "rows M ! i ! j = (\<Sum>k<shape1 A. rows A ! i ! k * rows B ! k ! j)"
proof -
  have sh: "shape1 A = shape0 B" and M: "rows M = map (\<lambda>u. map (dotv u) (rows (transpose_nd B))) (rows A)"
    using assms(3) by (auto simp: matmul_def split: if_splits)
  have i: "i < length (rows A)" and li: "length (rows A ! i) = shape1 A"
    using assms(1,4) by (simp_all add: wf_ndarrayD)
  have lb: "length (rows B) = shape1 A" using assms(2) sh by (simp add: wf_ndarrayD(1))
  have "rows M ! i ! j = dotv (rows A ! i) (map (\<lambda>u. u ! j) (rows B))"
    using M i assms(5) by simp
  also have "\<dots> = (\<Sum>k<shape1 A. rows A ! i ! k * rows B ! k ! j)"
    using li lb by (simp add: dotv_sum)
  finally show ?thesis .
qed

section \<open>The claims\<close>

subsection \<open>Vector application\<close>

text \<open>
  C1. For a geometry whose factors are well-formed arrays with the same number of columns
  and whose scale resolves to a real \<open>s \<ge> 0\<close> (so that the scaled factors and the cost
  matrix are real arrays), and a vector of the length selected by \<open>axis\<close>,
  \<^verbatim>\<open>_apply_cost_to_vec(vec, axis, fn=None)\<close> returns the dense product of the cost matrix
  (transposed for \<open>axis = 0\<close>) with the vector, and this is the value of the fast path
  \<open>efficient_apply\<close>, which computes \<open>c1 (c2\<^sup>T vec) + bias * sum vec\<close> with the factors
  swapped according to the axis.
\<close>

theorem apply_cost_to_vec_equals_dense:
  assumes wf: "wf_ndarray (attr_cost_1 g)" "wf_ndarray (attr_cost_2 g)"
    and cols: "shape1 (attr_cost_1 g) = shape1 (attr_cost_2 g)"
    and sc: "scale_cost g = Inr s" "0 \<le> s"
    and ax: "axis = 0 \<or> axis = 1"
    and len: "length vec = (if axis = 0 then fst (shape g) else snd (shape g))"
  shows "\<exists>C y. cost_matrix g = Inr C
           \<and> dot_mv (if axis = 0 then transpose_nd C else C) vec = Inr y
           \<and> efficient_apply g vec axis None = Inr y
           \<and> apply_cost_to_vec is_linear g vec axis None = Inr y"
proof -
  let ?A = "scale_nd (attr_cost_1 g) (sqrt s)" and ?B = "scale_nd (attr_cost_2 g) (sqrt s)"
  let ?b = "attr_bias g * s"
  let ?G = "if axis = 0 then gram ?B ?A ?b else gram ?A ?B ?b"
  have cm: "cost_matrix g = Inr (gram ?A ?B ?b)"
    by (rule cost_matrix_gram [OF wf(2) cols sc])
  have "transpose_nd (gram ?A ?B ?b) = gram ?B ?A ?b"
    using wf by (intro transpose_gram wf_scale_nd)
  then have "(if axis = 0 then transpose_nd (gram ?A ?B ?b) else gram ?A ?B ?b) = ?G"
    by simp
  then have "dot_mv (if axis = 0 then transpose_nd (gram ?A ?B ?b) else gram ?A ?B ?b) vec
      = Inr (map (\<lambda>u. dotv u vec) (rows ?G))"
    using apply_values(4) [OF wf cols sc ax len] by (simp only:)
  then show ?thesis
    using cm apply_values(1,3) [OF wf cols sc ax len] by blast
qed

theorem apply_cost_to_vec_equals_dense_witness:
  "wf_ndarray (attr_cost_1 ex_geom) \<and> wf_ndarray (attr_cost_2 ex_geom)
   \<and> shape1 (attr_cost_1 ex_geom) = shape1 (attr_cost_2 ex_geom)
   \<and> scale_cost ex_geom = Inr 4
   \<and> length [1, 1 :: real] = snd (shape ex_geom)
   \<and> cost_matrix ex_geom = Inr \<lparr>shape0 = 2, shape1 = 2, rows = [[16, 20], [28, 36]]\<rparr>
   \<and> efficient_apply ex_geom [1, 1] 1 None = Inr [36, 64]
   \<and> apply_cost_to_vec (\<lambda>f. False) ex_geom [1, 1] 1 None = Inr [36, 64]
   \<and> length [1, 1 :: real] = fst (shape ex_geom)
   \<and> apply_cost_to_vec (\<lambda>f. False) ex_geom [1, 1] 0 None = Inr [44, 56]"
proof -
  have h: "wf_ndarray (attr_cost_1 ex_geom)" "wf_ndarray (attr_cost_2 ex_geom)"
    "shape1 (attr_cost_1 ex_geom) = shape1 (attr_cost_2 ex_geom)"
    "scale_cost ex_geom = Inr 4" "(0::real) \<le> 4" "(1::int) = 0 \<or> (1::int) = 1"
    "length [1, 1 :: real] = (if (1::int) = 0 then fst (shape ex_geom) else snd (shape ex_geom))"
    by (simp_all add: ex_geom_def ex_cost_1_def ex_cost_2_def wf_ndarray_def scale_cost_def shape_def)
  have cm: "cost_matrix ex_geom = Inr \<lparr>shape0 = 2, shape1 = 2, rows = [[16, 20], [28, 36]]\<rparr>"
    by (simp add: cost_matrix_def cost_1_def cost_2_def bias_def scale_cost_def ex_geom_def
        sqrt_f_def ex_cost_1_def ex_cost_2_def matmul_def dotv_def add_scalar_def upt_conv_Cons)
  have dm: "dot_mv \<lparr>shape0 = 2, shape1 = 2, rows = [[16, 20], [28, 36]]\<rparr> [1, 1] = Inr [36, 64]"
    by (simp add: dot_mv_def dotv_def)
  from apply_cost_to_vec_equals_dense [OF h, of "\<lambda>f. False"] cm dm
  have "efficient_apply ex_geom [1, 1] 1 None = Inr [36, 64]
      \<and> apply_cost_to_vec (\<lambda>f. False) ex_geom [1, 1] 1 None = Inr [36, 64]"
    by auto
  moreover
  have h0: "(0::int) = 0 \<or> (0::int) = 1"
    "length [1, 1 :: real] = (if (0::int) = 0 then fst (shape ex_geom) else snd (shape ex_geom))"
    by (simp_all add: ex_geom_def ex_cost_1_def ex_cost_2_def shape_def)
  have dt: "dot_mv (transpose_nd \<lparr>shape0 = 2, shape1 = 2, rows = [[16, 20], [28, 36]]\<rparr>) [1, 1]
      = Inr [44, 56]"
    by (simp add: dot_mv_def dotv_def upt_conv_Cons)
  from apply_cost_to_vec_equals_dense [OF h(1-5) h0, of "\<lambda>f. False"] cm dt
  have "apply_cost_to_vec (\<lambda>f. False) ex_geom [1, 1] 0 None = Inr [44, 56]"
    by auto
  ultimately show ?thesis using h h0 cm by (simp add: shape_def)
qed

subsection \<open>Squared-cost application\<close>

text \<open>
  C2. For a geometry with bias \<open>0\<close> (factors well-formed with the same number of columns,
  scale resolving to a real \<open>s \<ge> 0\<close>) and a vector of the length selected by \<open>axis\<close>,
  \<^verbatim>\<open>apply_square_cost(vec, axis)\<close> returns the product of the elementwise square of the
  cost matrix (transposed for \<open>axis = 0\<close>) with the vector. The branch is decided at each
  call by \<open>n * m < (n + m) * r\<^sup>2\<close>: when it holds the call is the dense fallback of the
  base class, otherwise it is the vector application of the geometry of rank \<open>r\<^sup>2\<close> built
  from the outer-product expansions of the scaled factors.
\<close>

theorem apply_square_cost_equals_dense:
  fixes g :: "'v LRCGeometry"
  assumes wf: "wf_ndarray (attr_cost_1 g)" "wf_ndarray (attr_cost_2 g)"
    and cols: "shape1 (attr_cost_1 g) = shape1 (attr_cost_2 g)"
    and b0: "attr_bias g = 0"
    and sc: "scale_cost g = Inr s" "0 \<le> s"
    and ax: "axis = 0 \<or> axis = 1"
    and len: "length vec = (if axis = 0 then fst (shape g) else snd (shape g))"
  shows "\<exists>C y. cost_matrix g = Inr C
           \<and> dot_mv (map_nd (\<lambda>x. x ^ 2) (if axis = 0 then transpose_nd C else C)) vec = Inr y
           \<and> apply_square_cost is_linear g vec axis = Inr y
           \<and> (if fst (shape g) * snd (shape g) < (fst (shape g) + snd (shape g)) * cost_rank g ^ 2
              then apply_square_cost is_linear g vec axis = Geometry_apply_square_cost g vec axis
              else \<exists>c1 c2 n1 n2 g2.
                     cost_1 g = Inr c1 \<and> cost_2 g = Inr c2
                     \<and> outer_reshape c1 (fst (shape g)) (cost_rank g ^ 2) = Inr n1
                     \<and> outer_reshape c2 (snd (shape g)) (cost_rank g ^ 2) = Inr n2
                     \<and> LRCGeometry_init n1 n2 0 PyNone ([] :: (string \<times> 'v) list) = Inr g2
                     \<and> cost_rank g2 = cost_rank g ^ 2
                     \<and> apply_square_cost is_linear g vec axis = Geometry_apply_cost is_linear g2 vec axis)"
proof -
  define A where "A = scale_nd (attr_cost_1 g) (sqrt s)"
  define B where "B = scale_nd (attr_cost_2 g) (sqrt s)"
  define G where "G = (if axis = 0 then gram B A 0 else gram A B 0)"
  define y where "y = map (\<lambda>u. dotv u vec) (rows (map_nd (\<lambda>x. x ^ 2) G))"
  have wfA: "wf_ndarray A" and wfB: "wf_ndarray B" using wf by (simp_all add: wf_scale_nd A_def B_def)
  have colsAB: "shape1 A = shape1 B" using cols by (simp add: A_def B_def)
  have cm: "cost_matrix g = Inr (gram A B 0)"
    using cost_matrix_gram [OF wf(2) cols sc] b0 by (simp add: A_def B_def)
  have sf: "cost_1 g = Inr A" "cost_2 g = Inr B"
    unfolding A_def B_def using scaled_factors [OF sc] by simp_all
  have tg: "(if axis = 0 then transpose_nd (gram A B 0) else gram A B 0) = G"
    using transpose_gram [OF wfA wfB, of 0] by (simp add: G_def)
  have lv: "length vec = shape1 G"
    using len ax by (auto simp: G_def gram_def shape_def A_def B_def)
  have dense: "dot_mv (map_nd (\<lambda>x. x ^ 2) (if axis = 0 then transpose_nd (gram A B 0) else gram A B 0)) vec = Inr y"
    unfolding tg using lv by (simp add: dot_mv_def y_def)
  have direct: "Geometry_apply_square_cost g vec axis = Inr y"
    using apply_values(2) [OF wf cols sc ax len, of "Some (\<lambda>x. x ^ 2)"] b0
    by (simp add: Geometry_apply_square_cost_def y_def G_def A_def B_def)
  define g2 :: "'v LRCGeometry" where
    "g2 = \<lparr>attr_cost_1 = outer_nd A, attr_cost_2 = outer_nd B, attr_bias = 0,
           attr_kwargs = [], attr_scale_cost = PyNone\<rparr>"
  have o1: "outer_reshape A (fst (shape g)) (cost_rank g ^ 2) = Inr (outer_nd A)"
    using outer_reshape_eq [of A] by (simp add: shape_def cost_rank_def A_def)
  have o2: "outer_reshape B (snd (shape g)) (cost_rank g ^ 2) = Inr (outer_nd B)"
    using outer_reshape_eq [of B] cols by (simp add: shape_def cost_rank_def B_def)
  have init: "LRCGeometry_init (outer_nd A) (outer_nd B) 0 PyNone [] = Inr g2"
    using colsAB by (simp add: LRCGeometry_init_def g2_def outer_nd_def)
  have rk: "cost_rank g2 = cost_rank g ^ 2"
    by (simp add: cost_rank_def g2_def outer_nd_def A_def)
  have sc2: "scale_cost g2 = Inr 1" by (rule scale_cost_PyNone) (simp add: g2_def)
  have len2: "length vec = (if axis = 0 then fst (shape g2) else snd (shape g2))"
    using len by (simp add: shape_def g2_def outer_nd_def A_def B_def)
  have G2: "(if axis = 0 then gram (outer_nd B) (outer_nd A) 0 else gram (outer_nd A) (outer_nd B) 0)
          = map_nd (\<lambda>x. x ^ 2) G"
    using gram_outer [OF wfA wfB colsAB] gram_outer [OF wfB wfA colsAB [symmetric]]
    by (simp add: G_def)
  have wf2: "wf_ndarray (attr_cost_1 g2)" "wf_ndarray (attr_cost_2 g2)"
    using wfA wfB by (simp_all add: g2_def wf_outer_nd)
  have cols2: "shape1 (attr_cost_1 g2) = shape1 (attr_cost_2 g2)"
    using colsAB by (simp add: g2_def outer_nd_def)
  have "apply_cost_to_vec is_linear g2 vec axis None =
      Inr (map (\<lambda>u. dotv u vec) (rows (if axis = 0
        then gram (scale_nd (attr_cost_2 g2) (sqrt 1)) (scale_nd (attr_cost_1 g2) (sqrt 1)) (attr_bias g2 * 1)
        else gram (scale_nd (attr_cost_1 g2) (sqrt 1)) (scale_nd (attr_cost_2 g2) (sqrt 1)) (attr_bias g2 * 1))))"
    by (rule apply_values(3) [OF wf2 cols2 sc2 _ ax len2]) simp
  also have "(if axis = 0
        then gram (scale_nd (attr_cost_2 g2) (sqrt 1)) (scale_nd (attr_cost_1 g2) (sqrt 1)) (attr_bias g2 * 1)
        else gram (scale_nd (attr_cost_1 g2) (sqrt 1)) (scale_nd (attr_cost_2 g2) (sqrt 1)) (attr_bias g2 * 1))
      = map_nd (\<lambda>x. x ^ 2) G"
    using G2 by (cases "axis = 0") (simp_all add: g2_def)
  finally have "apply_cost_to_vec is_linear g2 vec axis None = Inr y"
    by (simp only: y_def)
  then have factored: "Geometry_apply_cost is_linear g2 vec axis = Inr y"
    by (simp add: Geometry_apply_cost_def)
  show ?thesis
  proof (cases "fst (shape g) * snd (shape g) < (fst (shape g) + snd (shape g)) * cost_rank g ^ 2")
    case True
    then have "apply_square_cost is_linear g vec axis = Geometry_apply_square_cost g vec axis"
      by (simp add: apply_square_cost_def Let_def)
    then show ?thesis using True cm dense direct by simp
  next
    case False
    then have "apply_square_cost is_linear g vec axis = Geometry_apply_cost is_linear g2 vec axis"
      using sf o1 o2 init by (simp add: apply_square_cost_def Let_def)
    then show ?thesis using False cm dense factored sf o1 o2 init rk by auto
  qed
qed

theorem apply_square_cost_equals_dense_witness:
  "wf_ndarray (attr_cost_1 ex_geom_unbiased) \<and> wf_ndarray (attr_cost_2 ex_geom_unbiased)
   \<and> shape1 (attr_cost_1 ex_geom_unbiased) = shape1 (attr_cost_2 ex_geom_unbiased)
   \<and> attr_bias ex_geom_unbiased = 0
   \<and> scale_cost ex_geom_unbiased = Inr 4
   \<and> length [1, 1 :: real] = snd (shape ex_geom_unbiased)
   \<and> \<not> fst (shape ex_geom_unbiased) * snd (shape ex_geom_unbiased)
        < (fst (shape ex_geom_unbiased) + snd (shape ex_geom_unbiased)) * cost_rank ex_geom_unbiased ^ 2
   \<and> cost_matrix ex_geom_unbiased = Inr \<lparr>shape0 = 2, shape1 = 2, rows = [[12, 16], [24, 32]]\<rparr>
   \<and> apply_square_cost (\<lambda>f. False) ex_geom_unbiased [1, 1] 1 = Inr [400, 1600]"
proof -
  have h: "wf_ndarray (attr_cost_1 ex_geom_unbiased)" "wf_ndarray (attr_cost_2 ex_geom_unbiased)"
    "shape1 (attr_cost_1 ex_geom_unbiased) = shape1 (attr_cost_2 ex_geom_unbiased)"
    "attr_bias ex_geom_unbiased = 0"
    "scale_cost ex_geom_unbiased = Inr 4" "(0::real) \<le> 4" "(1::int) = 0 \<or> (1::int) = 1"
    "length [1, 1 :: real]
       = (if (1::int) = 0 then fst (shape ex_geom_unbiased) else snd (shape ex_geom_unbiased))"
    by (simp_all add: ex_geom_unbiased_def ex_cost_1_def ex_cost_2_def wf_ndarray_def
        scale_cost_def shape_def)
  have br: "\<not> fst (shape ex_geom_unbiased) * snd (shape ex_geom_unbiased)
        < (fst (shape ex_geom_unbiased) + snd (shape ex_geom_unbiased)) * cost_rank ex_geom_unbiased ^ 2"
    by (simp add: ex_geom_unbiased_def ex_cost_1_def ex_cost_2_def shape_def cost_rank_def)
  have cm: "cost_matrix ex_geom_unbiased = Inr \<lparr>shape0 = 2, shape1 = 2, rows = [[12, 16], [24, 32]]\<rparr>"
    by (simp add: cost_matrix_def cost_1_def cost_2_def bias_def scale_cost_def ex_geom_unbiased_def
        sqrt_f_def ex_cost_1_def ex_cost_2_def matmul_def dotv_def add_scalar_def upt_conv_Cons)
  have dm: "dot_mv (map_nd (\<lambda>x. x ^ 2) \<lparr>shape0 = 2, shape1 = 2, rows = [[12, 16], [24, 32]]\<rparr>) [1, 1]
      = Inr [400, 1600]"
    by (simp add: dot_mv_def dotv_def map_nd_def)
  from apply_square_cost_equals_dense [OF h, of "\<lambda>f. False"] cm dm
  have "apply_square_cost (\<lambda>f. False) ex_geom_unbiased [1, 1] 1 = Inr [400, 1600]"
    by auto
  then show ?thesis using h br cm by (simp add: shape_def)
qed

subsection \<open>Merging\<close>

text \<open>
  C3. For two geometries with well-formed factors whose scales resolve to reals \<open>\<ge> 0\<close>
  (so that their scaled factors exist): if they have the same shape, \<^verbatim>\<open>add_lrc_geom\<close>
  returns a geometry whose stored factors, and scaled factors, are the column-wise
  concatenations of the scaled factors of the operands, whose rank is \<open>r1 + r2\<close>, whose
  keyword arguments are those of the first operand, and, when both biases are \<open>0\<close>, whose
  cost matrix is the sum of the two cost matrices; if the shapes differ it fails with the
  shape error of \<^verbatim>\<open>jnp.concatenate\<close> (the spec's ShapeMismatch).
\<close>

theorem add_lrc_geom_merge:
  fixes geom1 geom2 :: "'v LRCGeometry"
  assumes wf1: "wf_ndarray (attr_cost_1 geom1)" "wf_ndarray (attr_cost_2 geom1)"
    and wf2: "wf_ndarray (attr_cost_1 geom2)" "wf_ndarray (attr_cost_2 geom2)"
    and cols1: "shape1 (attr_cost_1 geom1) = shape1 (attr_cost_2 geom1)"
    and cols2: "shape1 (attr_cost_1 geom2) = shape1 (attr_cost_2 geom2)"
    and sc1: "scale_cost geom1 = Inr s1" "0 \<le> s1"
    and sc2: "scale_cost geom2 = Inr s2" "0 \<le> s2"
  shows "if shape geom1 = shape geom2
         then \<exists>a1 b1 c1 a2 b2 c2 g.
                cost_1 geom1 = Inr a1 \<and> cost_1 geom2 = Inr b1 \<and> concatenate1 a1 b1 = Inr c1
              \<and> cost_2 geom1 = Inr a2 \<and> cost_2 geom2 = Inr b2 \<and> concatenate1 a2 b2 = Inr c2
              \<and> add_lrc_geom geom1 geom2 = Inr g
              \<and> attr_cost_1 g = c1 \<and> attr_cost_2 g = c2
              \<and> cost_1 g = Inr c1 \<and> cost_2 g = Inr c2
              \<and> cost_rank g = cost_rank geom1 + cost_rank geom2
              \<and> attr_kwargs g = attr_kwargs geom1
              \<and> shape g = shape geom1
              \<and> (attr_bias geom1 = 0 \<and> attr_bias geom2 = 0 \<longrightarrow>
                   (\<exists>C1 C2. cost_matrix geom1 = Inr C1 \<and> cost_matrix geom2 = Inr C2
                      \<and> cost_matrix g = Inr (add_nd C1 C2)))
         else add_lrc_geom geom1 geom2 = Inl TypeError"
proof -
  define a1 where "a1 = scale_nd (attr_cost_1 geom1) (sqrt s1)"
  define a2 where "a2 = scale_nd (attr_cost_2 geom1) (sqrt s1)"
  define b1 where "b1 = scale_nd (attr_cost_1 geom2) (sqrt s2)"
  define b2 where "b2 = scale_nd (attr_cost_2 geom2) (sqrt s2)"
  have f1: "cost_1 geom1 = Inr a1" "cost_2 geom1 = Inr a2"
    unfolding a1_def a2_def using scaled_factors [OF sc1] by simp_all
  have f2: "cost_1 geom2 = Inr b1" "cost_2 geom2 = Inr b2"
    unfolding b1_def b2_def using scaled_factors [OF sc2] by simp_all
  have wfs: "wf_ndarray a1" "wf_ndarray a2" "wf_ndarray b1" "wf_ndarray b2"
    using wf1 wf2 by (simp_all add: a1_def a2_def b1_def b2_def wf_scale_nd)
  have sh: "shape0 a1 = fst (shape geom1)" "shape0 a2 = snd (shape geom1)"
    "shape0 b1 = fst (shape geom2)" "shape0 b2 = snd (shape geom2)"
    by (simp_all add: a1_def a2_def b1_def b2_def shape_def)
  have cs: "shape1 a1 = shape1 a2" "shape1 b1 = shape1 b2"
    using cols1 cols2 by (simp_all add: a1_def a2_def b1_def b2_def)
  show ?thesis
  proof (cases "shape geom1 = shape geom2")
    case False
    then have "shape0 a1 \<noteq> shape0 b1 \<or> shape0 a2 \<noteq> shape0 b2"
      using sh by (auto simp: prod_eq_iff)
    then have "add_lrc_geom geom1 geom2 = Inl TypeError"
      using f1 f2 by (auto simp: add_lrc_geom_def concatenate1_def)
    then show ?thesis using False by simp
  next
    case True
    then have n: "shape0 a1 = shape0 b1" and m: "shape0 a2 = shape0 b2" using sh by simp_all
    define c1 where "c1 = \<lparr>shape0 = shape0 a1, shape1 = shape1 a1 + shape1 b1,
                            rows = map2 (\<lambda>u v. u @ v) (rows a1) (rows b1)\<rparr>"
    define c2 where "c2 = \<lparr>shape0 = shape0 a2, shape1 = shape1 a2 + shape1 b2,
                            rows = map2 (\<lambda>u v. u @ v) (rows a2) (rows b2)\<rparr>"
    define g :: "'v LRCGeometry" where
      "g = \<lparr>attr_cost_1 = c1, attr_cost_2 = c2, attr_bias = 0,
            attr_kwargs = attr_kwargs geom1, attr_scale_cost = PyNone\<rparr>"
    have k1: "concatenate1 a1 b1 = Inr c1" and k2: "concatenate1 a2 b2 = Inr c2"
      using n m by (simp_all add: concatenate1_def c1_def c2_def)
    have cc: "shape1 c1 = shape1 c2" using cs by (simp add: c1_def c2_def)
    have add: "add_lrc_geom geom1 geom2 = Inr g"
      using f1 f2 k1 k2 cc by (simp add: add_lrc_geom_def LRCGeometry_init_def g_def)
    have scg: "scale_cost g = Inr 1" by (rule scale_cost_PyNone) (simp add: g_def)
    have fg: "cost_1 g = Inr c1" "cost_2 g = Inr c2"
      using scaled_factors(1,2) [OF scg] by (simp_all add: g_def)
    have rk: "cost_rank g = cost_rank geom1 + cost_rank geom2"
      by (simp add: cost_rank_def g_def c1_def a1_def b1_def)
    have shg: "shape g = shape geom1"
      by (simp add: shape_def g_def c1_def c2_def a1_def a2_def)
    have wfc: "wf_ndarray c1" "wf_ndarray c2"
      unfolding c1_def c2_def
      by (rule wf_concat [OF wfs(1) wfs(3) n], rule wf_concat [OF wfs(2) wfs(4) m])
    have cm: "attr_bias geom1 = 0 \<and> attr_bias geom2 = 0 \<longrightarrow>
        (\<exists>C1 C2. cost_matrix geom1 = Inr C1 \<and> cost_matrix geom2 = Inr C2
           \<and> cost_matrix g = Inr (add_nd C1 C2))"
    proof
      assume b0: "attr_bias geom1 = 0 \<and> attr_bias geom2 = 0"
      have m1: "cost_matrix geom1 = Inr (gram a1 a2 0)"
        using cost_matrix_gram [OF wf1(2) cols1 sc1] b0 by (simp add: a1_def a2_def)
      have m2: "cost_matrix geom2 = Inr (gram b1 b2 0)"
        using cost_matrix_gram [OF wf2(2) cols2 sc2] b0 by (simp add: b1_def b2_def)
      have "cost_matrix g = Inr (gram c1 c2 0)"
        using cost_matrix_gram [of g 1] wfc cc scg by (simp add: g_def)
      also have "gram c1 c2 0 = add_nd (gram a1 a2 0) (gram b1 b2 0)"
        using gram_concat_rows [OF wfs(1,2,3,4) cs(1) n m]
        by (simp add: gram_def add_nd_def c1_def c2_def)
      finally show "\<exists>C1 C2. cost_matrix geom1 = Inr C1 \<and> cost_matrix geom2 = Inr C2
           \<and> cost_matrix g = Inr (add_nd C1 C2)"
        using m1 m2 by blast
    qed
    have "\<exists>a1 b1 c1 a2 b2 c2 g.
                cost_1 geom1 = Inr a1 \<and> cost_1 geom2 = Inr b1 \<and> concatenate1 a1 b1 = Inr c1
              \<and> cost_2 geom1 = Inr a2 \<and> cost_2 geom2 = Inr b2 \<and> concatenate1 a2 b2 = Inr c2
              \<and> add_lrc_geom geom1 geom2 = Inr g
              \<and> attr_cost_1 g = c1 \<and> attr_cost_2 g = c2
              \<and> cost_1 g = Inr c1 \<and> cost_2 g = Inr c2
              \<and> cost_rank g = cost_rank geom1 + cost_rank geom2
              \<and> attr_kwargs g = attr_kwargs geom1
              \<and> shape g = shape geom1
              \<and> (attr_bias geom1 = 0 \<and> attr_bias geom2 = 0 \<longrightarrow>
                   (\<exists>C1 C2. cost_matrix geom1 = Inr C1 \<and> cost_matrix geom2 = Inr C2
                      \<and> cost_matrix g = Inr (add_nd C1 C2)))"
      apply (rule exI [of _ a1], rule exI [of _ b1], rule exI [of _ c1])
      apply (rule exI [of _ a2], rule exI [of _ b2], rule exI [of _ c2], rule exI [of _ g])
      using f1 f2 k1 k2 add fg rk shg cm by (simp add: g_def)
    then show ?thesis using True by simp
  qed
qed

theorem add_lrc_geom_merge_witness:
  "wf_ndarray ex_cost_1 \<and> wf_ndarray ex_cost_2 \<and> wf_ndarray ex_one
   \<and> scale_cost ex_geom_unbiased = Inr 4 \<and> scale_cost ex_geom_plain = Inr 1
   \<and> scale_cost ex_geom_small = Inr 1
   \<and> shape ex_geom_unbiased = shape ex_geom_plain
   \<and> add_lrc_geom ex_geom_unbiased ex_geom_plain
       = Inr \<lparr>attr_cost_1 = \<lparr>shape0 = 2, shape1 = 2, rows = [[2, 3], [4, 4]]\<rparr>,
              attr_cost_2 = \<lparr>shape0 = 2, shape1 = 2, rows = [[6, 1], [8, 2]]\<rparr>,
              attr_bias = 0, attr_kwargs = [], attr_scale_cost = PyNone\<rparr>
   \<and> cost_matrix ex_geom_unbiased = Inr \<lparr>shape0 = 2, shape1 = 2, rows = [[12, 16], [24, 32]]\<rparr>
   \<and> cost_matrix ex_geom_plain = Inr \<lparr>shape0 = 2, shape1 = 2, rows = [[3, 6], [4, 8]]\<rparr>
   \<and> cost_matrix \<lparr>attr_cost_1 = \<lparr>shape0 = 2, shape1 = 2, rows = [[2, 3], [4, 4]]\<rparr>,
              attr_cost_2 = \<lparr>shape0 = 2, shape1 = 2, rows = [[6, 1], [8, 2]]\<rparr>,
              attr_bias = 0, attr_kwargs = [] :: (string \<times> unit) list, attr_scale_cost = PyNone\<rparr>
       = Inr \<lparr>shape0 = 2, shape1 = 2, rows = [[15, 22], [28, 40]]\<rparr>
   \<and> shape ex_geom_unbiased \<noteq> shape ex_geom_small
   \<and> add_lrc_geom ex_geom_unbiased ex_geom_small = Inl TypeError"
proof -
  have w: "wf_ndarray ex_cost_1" "wf_ndarray ex_cost_2" "wf_ndarray ex_one"
    by (simp_all add: wf_ndarray_def ex_cost_1_def ex_cost_2_def ex_one_def)
  have s: "scale_cost ex_geom_unbiased = Inr 4" "scale_cost ex_geom_plain = Inr 1"
    "scale_cost ex_geom_small = Inr 1"
    by (simp_all add: scale_cost_def ex_geom_unbiased_def ex_geom_plain_def ex_geom_small_def)
  have a: "attr_cost_1 ex_geom_unbiased = ex_cost_1" "attr_cost_2 ex_geom_unbiased = ex_cost_2"
    "attr_cost_1 ex_geom_plain = ex_cost_2" "attr_cost_2 ex_geom_plain = ex_cost_1"
    "attr_cost_1 ex_geom_small = ex_one" "attr_cost_2 ex_geom_small = ex_one"
    "attr_bias ex_geom_unbiased = 0" "attr_bias ex_geom_plain = 0"
    by (simp_all add: ex_geom_unbiased_def ex_geom_plain_def ex_geom_small_def)
  have sh: "shape ex_geom_unbiased = shape ex_geom_plain"
    "shape ex_geom_unbiased \<noteq> shape ex_geom_small"
    by (simp_all add: shape_def a ex_cost_1_def ex_cost_2_def ex_one_def)
  have m1: "cost_matrix ex_geom_unbiased = Inr \<lparr>shape0 = 2, shape1 = 2, rows = [[12, 16], [24, 32]]\<rparr>"
    by (simp add: cost_matrix_def cost_1_def cost_2_def bias_def scale_cost_def ex_geom_unbiased_def
        sqrt_f_def ex_cost_1_def ex_cost_2_def matmul_def dotv_def add_scalar_def upt_conv_Cons)
  have m2: "cost_matrix ex_geom_plain = Inr \<lparr>shape0 = 2, shape1 = 2, rows = [[3, 6], [4, 8]]\<rparr>"
    by (simp add: cost_matrix_def cost_1_def cost_2_def bias_def scale_cost_def ex_geom_plain_def
        sqrt_f_def ex_cost_1_def ex_cost_2_def matmul_def dotv_def add_scalar_def upt_conv_Cons)
  have ad: "add_lrc_geom ex_geom_unbiased ex_geom_plain
       = Inr \<lparr>attr_cost_1 = \<lparr>shape0 = 2, shape1 = 2, rows = [[2, 3], [4, 4]]\<rparr>,
              attr_cost_2 = \<lparr>shape0 = 2, shape1 = 2, rows = [[6, 1], [8, 2]]\<rparr>,
              attr_bias = 0, attr_kwargs = [], attr_scale_cost = PyNone\<rparr>"
    by (simp add: add_lrc_geom_def cost_1_def cost_2_def scale_cost_def ex_geom_unbiased_def
        ex_geom_plain_def sqrt_f_def ex_cost_1_def ex_cost_2_def concatenate1_def
        LRCGeometry_init_def)
  have h1: "wf_ndarray (attr_cost_1 ex_geom_unbiased)" "wf_ndarray (attr_cost_2 ex_geom_unbiased)"
    and h2: "wf_ndarray (attr_cost_1 ex_geom_plain)" "wf_ndarray (attr_cost_2 ex_geom_plain)"
    and h3: "wf_ndarray (attr_cost_1 ex_geom_small)" "wf_ndarray (attr_cost_2 ex_geom_small)"
    and k1: "shape1 (attr_cost_1 ex_geom_unbiased) = shape1 (attr_cost_2 ex_geom_unbiased)"
    and k2: "shape1 (attr_cost_1 ex_geom_plain) = shape1 (attr_cost_2 ex_geom_plain)"
    and k3: "shape1 (attr_cost_1 ex_geom_small) = shape1 (attr_cost_2 ex_geom_small)"
    by (simp_all add: a w) (simp_all add: ex_cost_1_def ex_cost_2_def)
  have p: "(0::real) \<le> 4" "(0::real) \<le> 1" by simp_all
  note t1 = add_lrc_geom_merge [OF h1 h2 k1 k2 s(1) p(1) s(2) p(2)]
  note t2 = add_lrc_geom_merge [OF h1 h3 k1 k3 s(1) p(1) s(3) p(2)]
  from if_trueD [OF t1 sh(1)] a(7,8)
  obtain g C1 C2 where g: "add_lrc_geom ex_geom_unbiased ex_geom_plain = Inr g"
      "cost_matrix ex_geom_unbiased = Inr C1" "cost_matrix ex_geom_plain = Inr C2"
      "cost_matrix g = Inr (add_nd C1 C2)"
    by blast
  have "C1 = \<lparr>shape0 = 2, shape1 = 2, rows = [[12, 16], [24, 32]]\<rparr>"
    "C2 = \<lparr>shape0 = 2, shape1 = 2, rows = [[3, 6], [4, 8]]\<rparr>"
    using g(2,3) m1 m2 by simp_all
  then have "cost_matrix g = Inr \<lparr>shape0 = 2, shape1 = 2, rows = [[15, 22], [28, 40]]\<rparr>"
    using g(4) by (simp add: add_nd_def)
  moreover have "g = \<lparr>attr_cost_1 = \<lparr>shape0 = 2, shape1 = 2, rows = [[2, 3], [4, 4]]\<rparr>,
              attr_cost_2 = \<lparr>shape0 = 2, shape1 = 2, rows = [[6, 1], [8, 2]]\<rparr>,
              attr_bias = 0, attr_kwargs = [], attr_scale_cost = PyNone\<rparr>"
    using g(1) ad by simp
  ultimately have mg: "cost_matrix \<lparr>attr_cost_1 = \<lparr>shape0 = 2, shape1 = 2, rows = [[2, 3], [4, 4]]\<rparr>,
              attr_cost_2 = \<lparr>shape0 = 2, shape1 = 2, rows = [[6, 1], [8, 2]]\<rparr>,
              attr_bias = 0, attr_kwargs = [] :: (string \<times> unit) list, attr_scale_cost = PyNone\<rparr>
       = Inr \<lparr>shape0 = 2, shape1 = 2, rows = [[15, 22], [28, 40]]\<rparr>"
    by (simp only:)
  have t3: "add_lrc_geom ex_geom_unbiased ex_geom_small = Inl TypeError"
    by (rule if_falseD [OF t2 sh(2)])
  show ?thesis
    by (intro conjI w s sh ad m1 m2 mg t3)
qed

subsection \<open>Construction\<close>

text \<open>
  C4, as stated, fails: \<^verbatim>\<open>__init__\<close> asserts only that the two factors have the same
  number of columns, and a construction with \<open>r = 0\<close> succeeds. Here both factors have one
  row and no column.
\<close>

theorem init_rank0_counterexample:
  "shape1 ex_rank0 = 0 \<and> wf_ndarray ex_rank0
   \<and> LRCGeometry_init ex_rank0 ex_rank0 0 PyNone [] = Inr ex_geom_rank0
   \<and> cost_rank ex_geom_rank0 = 0"
  by (simp add: LRCGeometry_init_def ex_rank0_def ex_geom_rank0_def wf_ndarray_def cost_rank_def)

text \<open>
  C4, amended. Construction enforces that the two factors have the same number of columns,
  and nothing else: with different numbers of columns it fails with \<open>AssertionError\<close> (the
  spec's ShapeMismatch), with equal numbers (zero included) it succeeds and stores its
  arguments, and every geometry it returns has factors with the same number of columns.
\<close>

theorem init_checks_columns:
  "LRCGeometry_init c1 c2 b sc kw =
     (if shape1 c1 = shape1 c2
      then Inr \<lparr>attr_cost_1 = c1, attr_cost_2 = c2, attr_bias = b,
                attr_kwargs = kw, attr_scale_cost = sc\<rparr>
      else Inl AssertionError)
   \<and> (\<forall>g. LRCGeometry_init c1 c2 b sc kw = Inr g
          \<longrightarrow> shape1 (attr_cost_1 g) = shape1 (attr_cost_2 g))"
  by (auto simp: LRCGeometry_init_def)

theorem init_checks_columns_witness:
  "shape1 ex_cost_1 \<noteq> shape1 ex_cost_3
   \<and> LRCGeometry_init ex_cost_1 ex_cost_3 1 (PyFloat 4) ([] :: (string \<times> unit) list)
       = Inl AssertionError
   \<and> shape1 ex_cost_1 = shape1 ex_cost_2
   \<and> LRCGeometry_init ex_cost_1 ex_cost_2 1 (PyFloat 4) [] = Inr ex_geom
   \<and> shape1 (attr_cost_1 ex_geom) = shape1 (attr_cost_2 ex_geom)"
proof -
  have ne: "shape1 ex_cost_1 \<noteq> shape1 ex_cost_3" and eq: "shape1 ex_cost_1 = shape1 ex_cost_2"
    by (simp_all add: ex_cost_1_def ex_cost_2_def ex_cost_3_def)
  have 1: "LRCGeometry_init ex_cost_1 ex_cost_3 1 (PyFloat 4) ([] :: (string \<times> unit) list)
       = Inl AssertionError"
    using init_checks_columns [of ex_cost_1 ex_cost_3 1 "PyFloat 4" "[] :: (string \<times> unit) list"] ne
    by simp
  have 2: "LRCGeometry_init ex_cost_1 ex_cost_2 1 (PyFloat 4) [] = Inr ex_geom"
    using init_checks_columns [of ex_cost_1 ex_cost_2 1 "PyFloat 4" "[] :: (string \<times> unit) list"] eq
    by (simp add: ex_geom_def)
  have 3: "shape1 (attr_cost_1 ex_geom) = shape1 (attr_cost_2 ex_geom)"
    using init_checks_columns [of ex_cost_1 ex_cost_2 1 "PyFloat 4" "[] :: (string \<times> unit) list"] 2
    by blast
  show ?thesis using ne eq 1 2 3 by simp
qed

subsection \<open>The policy max\_bound\<close>

text \<open>
  C5, as stated, fails: with the policy \<^verbatim>\<open>'max_bound'\<close>, zero factors and a zero bias
  the denominator \<open>max |A| * max |B| + |bias|\<close> is \<open>0\<close>, the scale \<^verbatim>\<open>1.0 / 0\<close> is not a
  real number, and there are no scaled factors whose bound could be \<open>1\<close>.
\<close>

theorem max_bound_counterexample:
  "attr_scale_cost ex_geom_zero = PyStr ''max_bound''
   \<and> scale_cost ex_geom_zero = Inl NonFinite
   \<and> cost_1 ex_geom_zero = Inl NonFinite
   \<and> cost_2 ex_geom_zero = Inl NonFinite
   \<and> bias ex_geom_zero = Inl NonFinite"
  by (simp add: ex_geom_zero_def ex_zero_def scale_cost_def max_abs_def div_f_def
      cost_1_def cost_2_def bias_def)

text \<open>
  C5, amended. For a geometry with the policy \<^verbatim>\<open>'max_bound'\<close> whose factors have entries
  (so that both maxima exist) and for which \<open>max |A| * max |B| + |bias|\<close> is not \<open>0\<close>: the
  resolved scale is the inverse of that number; it depends on the stored factors, bias and
  policy only, so resolving it again gives the same value; and the scaled factors and
  bias satisfy \<open>max |cost_1| * max |cost_2| + |bias| = 1\<close>.
\<close>

theorem max_bound_scale:
  assumes pol: "attr_scale_cost g = PyStr ''max_bound''"
    and m1: "max_abs (attr_cost_1 g) = Inr m1" and m2: "max_abs (attr_cost_2 g) = Inr m2"
    and nz: "m1 * m2 + \<bar>attr_bias g\<bar> \<noteq> 0"
  shows "scale_cost g = Inr (1 / (m1 * m2 + \<bar>attr_bias g\<bar>))
       \<and> (\<forall>g2 :: 'w LRCGeometry.
             attr_cost_1 g2 = attr_cost_1 g \<and> attr_cost_2 g2 = attr_cost_2 g
             \<and> attr_bias g2 = attr_bias g \<and> attr_scale_cost g2 = attr_scale_cost g
             \<longrightarrow> scale_cost g2 = scale_cost g)
       \<and> (\<exists>c1 c2 b M1 M2. cost_1 g = Inr c1 \<and> cost_2 g = Inr c2 \<and> bias g = Inr b
             \<and> max_abs c1 = Inr M1 \<and> max_abs c2 = Inr M2 \<and> M1 * M2 + \<bar>b\<bar> = 1)"
proof -
  let ?D = "m1 * m2 + \<bar>attr_bias g\<bar>"
  let ?s = "1 / ?D"
  have "0 \<le> m1 * m2" using max_abs_nonneg [OF m1] max_abs_nonneg [OF m2] by simp
  then have D: "0 < ?D" using nz by linarith
  then have s: "0 \<le> ?s" by simp
  have sc: "scale_cost g = Inr ?s"
    using pol m1 m2 nz by (simp add: scale_cost_def div_f_def)
  note sf = scaled_factors [OF sc s]
  have M1: "max_abs (scale_nd (attr_cost_1 g) (sqrt ?s)) = Inr (m1 * sqrt ?s)"
    using s by (intro max_abs_scale [OF m1]) (simp only: real_sqrt_ge_zero)
  have M2: "max_abs (scale_nd (attr_cost_2 g) (sqrt ?s)) = Inr (m2 * sqrt ?s)"
    using s by (intro max_abs_scale [OF m2]) (simp only: real_sqrt_ge_zero)
  have "?D * ?s = 1" using D by simp
  then have "(m1 * sqrt ?s) * (m2 * sqrt ?s) + \<bar>attr_bias g * ?s\<bar> = 1"
    using s by (rule bound_arith)
  then have scaled: "\<exists>c1 c2 b M1 M2. cost_1 g = Inr c1 \<and> cost_2 g = Inr c2 \<and> bias g = Inr b
             \<and> max_abs c1 = Inr M1 \<and> max_abs c2 = Inr M2 \<and> M1 * M2 + \<bar>b\<bar> = 1"
    using sf M1 M2 by blast
  have pure: "scale_cost g2 = scale_cost g"
    if "attr_cost_1 g2 = attr_cost_1 g \<and> attr_cost_2 g2 = attr_cost_2 g
        \<and> attr_bias g2 = attr_bias g \<and> attr_scale_cost g2 = attr_scale_cost g"
    for g2 :: "'w LRCGeometry"
  proof -
    have "shape g2 = shape g" using that by (simp add: shape_def)
    then show ?thesis using that unfolding scale_cost_def by (simp add: Let_def)
  qed
  show ?thesis using sc scaled pure by blast
qed

theorem max_bound_scale_witness:
  "attr_scale_cost ex_geom_max_bound = PyStr ''max_bound''
   \<and> max_abs (attr_cost_1 ex_geom_max_bound) = Inr 2
   \<and> max_abs (attr_cost_2 ex_geom_max_bound) = Inr 1
   \<and> (2::real) * 1 + \<bar>attr_bias ex_geom_max_bound\<bar> \<noteq> 0
   \<and> scale_cost ex_geom_max_bound = Inr (1 / 4)
   \<and> (\<exists>c1 c2 b M1 M2. cost_1 ex_geom_max_bound = Inr c1 \<and> cost_2 ex_geom_max_bound = Inr c2
         \<and> bias ex_geom_max_bound = Inr b
         \<and> max_abs c1 = Inr M1 \<and> max_abs c2 = Inr M2 \<and> M1 * M2 + \<bar>b\<bar> = 1)"
proof -
  have h: "attr_scale_cost ex_geom_max_bound = PyStr ''max_bound''"
    "max_abs (attr_cost_1 ex_geom_max_bound) = Inr 2"
    "max_abs (attr_cost_2 ex_geom_max_bound) = Inr 1"
    "(2::real) * 1 + \<bar>attr_bias ex_geom_max_bound\<bar> \<noteq> 0"
    by (simp_all add: ex_geom_max_bound_def ex_cost_1_def ex_neg_def max_abs_def)
  have b: "attr_bias ex_geom_max_bound = 2" by (simp add: ex_geom_max_bound_def)
  from max_bound_scale [OF h]
  have "scale_cost ex_geom_max_bound = Inr (1 / (2 * 1 + \<bar>attr_bias ex_geom_max_bound\<bar>))"
    and e: "\<exists>c1 c2 b M1 M2. cost_1 ex_geom_max_bound = Inr c1 \<and> cost_2 ex_geom_max_bound = Inr c2
         \<and> bias ex_geom_max_bound = Inr b
         \<and> max_abs c1 = Inr M1 \<and> max_abs c2 = Inr M2 \<and> M1 * M2 + \<bar>b\<bar> = 1"
    by blast+
  then have "scale_cost ex_geom_max_bound = Inr (1 / 4)" by (simp add: b)
  then show ?thesis using h e by blast
qed

subsection \<open>The policy mean\<close>

text \<open>
  C6, as stated, fails: a nonzero mean is not enough. With the policy \<^verbatim>\<open>'mean'\<close> and a
  negative mean the scale is negative, its square root \<^verbatim>\<open>jnp.sqrt\<close> is not a real
  number, and there is no scaled cost matrix whose mean could be \<open>1\<close>. Here the cost matrix
  without scaling is the one entry \<open>-1\<close>.
\<close>

theorem mean_scale_counterexample:
  "attr_scale_cost ex_geom_neg_mean = PyStr ''mean''
   \<and> mean_nd (gram (attr_cost_1 ex_geom_neg_mean) (attr_cost_2 ex_geom_neg_mean)
        (attr_bias ex_geom_neg_mean)) = - 1
   \<and> scale_cost ex_geom_neg_mean = Inr (- 1)
   \<and> cost_1 ex_geom_neg_mean = Inl NonFinite
   \<and> cost_matrix ex_geom_neg_mean = Inl NonFinite"
  by (simp add: ex_geom_neg_mean_def ex_one_def ex_neg_def scale_cost_def shape_def
      dot_vm_def dot_mv_def dot_vv_def div_f_def dotv_def cost_1_def cost_matrix_def sqrt_f_def
      mean_nd_def gram_def)

text \<open>
  C6, amended. For a geometry with the policy \<^verbatim>\<open>'mean'\<close>, well-formed factors with the
  same number of columns, at least one row in each factor and a positive mean of the
  unscaled cost matrix \<open>A B\<^sup>T + bias\<close>: the scale is \<open>1 / (f1 \<cdot> f2 / (n m) + bias)\<close>, where
  \<open>f1\<close> and \<open>f2\<close> are the column sums of the factors computed by the two \<^verbatim>\<open>jnp.dot\<close>
  calls; that denominator is the mean of the unscaled cost matrix, which is never built;
  and the mean of the scaled cost matrix is \<open>1\<close>.
\<close>

theorem mean_scale:
  assumes pol: "attr_scale_cost g = PyStr ''mean''"
    and wf: "wf_ndarray (attr_cost_1 g)" "wf_ndarray (attr_cost_2 g)"
    and cols: "shape1 (attr_cost_1 g) = shape1 (attr_cost_2 g)"
    and nm: "0 < fst (shape g)" "0 < snd (shape g)"
    and pos: "0 < mean_nd (gram (attr_cost_1 g) (attr_cost_2 g) (attr_bias g))"
  shows "\<exists>factor1 factor2.
           dot_vm (replicate (fst (shape g)) 1) (attr_cost_1 g) = Inr factor1
         \<and> dot_mv (transpose_nd (attr_cost_2 g)) (replicate (snd (shape g)) 1) = Inr factor2
         \<and> scale_cost g
             = Inr (1 / (dotv factor1 factor2 / real (fst (shape g) * snd (shape g)) + attr_bias g))
         \<and> dotv factor1 factor2 / real (fst (shape g) * snd (shape g)) + attr_bias g
             = mean_nd (gram (attr_cost_1 g) (attr_cost_2 g) (attr_bias g))
         \<and> (\<exists>C. cost_matrix g = Inr C \<and> mean_nd C = 1)"
proof -
  let ?A = "attr_cost_1 g" and ?B = "attr_cost_2 g" and ?b = "attr_bias g"
  let ?n = "shape0 ?A" and ?m = "shape0 ?B"
  define f1 where "f1 = map (dotv (replicate ?n 1)) (rows (transpose_nd ?A))"
  define f2 where "f2 = map (\<lambda>u. dotv u (replicate ?m 1)) (rows (transpose_nd ?B))"
  define \<mu> where "\<mu> = mean_nd (gram ?A ?B ?b)"
  have nm': "0 < ?n" "0 < ?m" using nm by (simp_all add: shape_def)
  then have nz: "real (?n * ?m) \<noteq> 0" by simp
  have d1: "dot_vm (replicate ?n 1) ?A = Inr f1" by (simp add: dot_vm_def f1_def)
  have d2: "dot_mv (transpose_nd ?B) (replicate ?m 1) = Inr f2" by (simp add: dot_mv_def f2_def)
  have d3: "dot_vv f1 f2 = Inr (dotv f1 f2)" using cols by (simp add: dot_vv_def f1_def f2_def)
  have "sum_list (concat (rows (gram ?A ?B ?b))) = dotv f1 f2 + real (?n * ?m) * ?b"
    unfolding f1_def f2_def by (rule sum_gram [OF wf cols])
  then have "\<mu> = (dotv f1 f2 + real (?n * ?m) * ?b) / real (?n * ?m)"
    by (simp add: \<mu>_def mean_nd_def gram_def)
  also have "\<dots> = dotv f1 f2 / real (?n * ?m) + ?b"
    using nz by (simp add: add_divide_distrib)
  finally have mu: "dotv f1 f2 / real (?n * ?m) + ?b = \<mu>" by simp
  have mpos: "0 < \<mu>" using pos by (simp add: \<mu>_def)
  have sc: "scale_cost g = Inr (1 / \<mu>)"
    using pol d1 d2 d3 nz mu mpos by (simp add: scale_cost_def shape_def div_f_def)
  have s0: "0 \<le> 1 / \<mu>" using mpos by simp
  have "cost_matrix g = Inr (gram (scale_nd ?A (sqrt (1 / \<mu>))) (scale_nd ?B (sqrt (1 / \<mu>))) (?b * (1 / \<mu>)))"
    by (rule cost_matrix_gram [OF wf(2) cols sc s0])
  also have "gram (scale_nd ?A (sqrt (1 / \<mu>))) (scale_nd ?B (sqrt (1 / \<mu>))) (?b * (1 / \<mu>))
      = scale_nd (gram ?A ?B ?b) (1 / \<mu>)"
    by (rule gram_scale) (use s0 in simp)
  finally have cm: "cost_matrix g = Inr (scale_nd (gram ?A ?B ?b) (1 / \<mu>))" .
  have "mean_nd (scale_nd (gram ?A ?B ?b) (1 / \<mu>)) = \<mu> * (1 / \<mu>)"
    by (simp only: mean_nd_scale \<mu>_def)
  also have "\<dots> = 1" using mpos by simp
  finally have one: "mean_nd (scale_nd (gram ?A ?B ?b) (1 / \<mu>)) = 1" .
  show ?thesis
    apply (rule exI [of _ f1], rule exI [of _ f2])
    using d1 d2 sc mu cm one by (simp add: shape_def \<mu>_def)
qed

theorem mean_scale_witness:
  "attr_scale_cost (ex_geom_of (PyStr ''mean'')) = PyStr ''mean''
   \<and> wf_ndarray (attr_cost_1 (ex_geom_of (PyStr ''mean'')))
   \<and> wf_ndarray (attr_cost_2 (ex_geom_of (PyStr ''mean'')))
   \<and> shape1 (attr_cost_1 (ex_geom_of (PyStr ''mean'')))
       = shape1 (attr_cost_2 (ex_geom_of (PyStr ''mean'')))
   \<and> 0 < fst (shape (ex_geom_of (PyStr ''mean'')))
   \<and> 0 < snd (shape (ex_geom_of (PyStr ''mean'')))
   \<and> mean_nd (gram (attr_cost_1 (ex_geom_of (PyStr ''mean'')))
         (attr_cost_2 (ex_geom_of (PyStr ''mean''))) (attr_bias (ex_geom_of (PyStr ''mean''))))
       = 25 / 4
   \<and> scale_cost (ex_geom_of (PyStr ''mean'')) = Inr (4 / 25)
   \<and> (\<exists>C. cost_matrix (ex_geom_of (PyStr ''mean'')) = Inr C \<and> mean_nd C = 1)"
proof -
  let ?g = "ex_geom_of (PyStr ''mean'')"
  have h: "attr_scale_cost ?g = PyStr ''mean''"
    "wf_ndarray (attr_cost_1 ?g)" "wf_ndarray (attr_cost_2 ?g)"
    "shape1 (attr_cost_1 ?g) = shape1 (attr_cost_2 ?g)"
    "0 < fst (shape ?g)" "0 < snd (shape ?g)"
    by (simp_all add: ex_geom_of_def ex_cost_1_def ex_cost_2_def wf_ndarray_def shape_def)
  have mu: "mean_nd (gram (attr_cost_1 ?g) (attr_cost_2 ?g) (attr_bias ?g)) = 25 / 4"
    by (simp add: ex_geom_of_def ex_cost_1_def ex_cost_2_def mean_nd_def gram_def dotv_def)
  then have p: "0 < mean_nd (gram (attr_cost_1 ?g) (attr_cost_2 ?g) (attr_bias ?g))"
    by simp
  from mean_scale [OF h p]
  obtain factor1 factor2 where
      sc: "scale_cost ?g
             = Inr (1 / (dotv factor1 factor2 / real (fst (shape ?g) * snd (shape ?g)) + attr_bias ?g))"
    and eq: "dotv factor1 factor2 / real (fst (shape ?g) * snd (shape ?g)) + attr_bias ?g
             = mean_nd (gram (attr_cost_1 ?g) (attr_cost_2 ?g) (attr_bias ?g))"
    and cm: "\<exists>C. cost_matrix ?g = Inr C \<and> mean_nd C = 1"
    by blast
  have "scale_cost ?g = Inr (4 / 25)"
    unfolding sc eq mu by simp
  then show ?thesis using h mu cm by blast
qed

subsection \<open>The policy max\_cost\<close>

text \<open>
  C7. With the policy \<^verbatim>\<open>'max_cost'\<close> every resolution of the scale raises
  \<open>NotImplementedError\<close>, and so does every operation that reads the scaled factors, the
  scaled bias or the cost matrix; none returns a value.
\<close>

theorem max_cost_not_implemented:
  assumes "attr_scale_cost g = PyStr ''max_cost''"
  shows "scale_cost g = Inl (NotImplementedError ''Scaling max_cost not implemented.'')
       \<and> cost_1 g = Inl (NotImplementedError ''Scaling max_cost not implemented.'')
       \<and> cost_2 g = Inl (NotImplementedError ''Scaling max_cost not implemented.'')
       \<and> bias g = Inl (NotImplementedError ''Scaling max_cost not implemented.'')
       \<and> cost_matrix g = Inl (NotImplementedError ''Scaling max_cost not implemented.'')
       \<and> efficient_apply g vec axis fn
           = Inl (NotImplementedError ''Scaling max_cost not implemented.'')
       \<and> apply_cost_to_vec is_linear g vec axis fn
           = Inl (NotImplementedError ''Scaling max_cost not implemented.'')"
proof -
  have s: "scale_cost g = Inl (NotImplementedError ''Scaling max_cost not implemented.'')"
    using assms by (simp add: scale_cost_def)
  then have f: "cost_1 g = Inl (NotImplementedError ''Scaling max_cost not implemented.'')"
      "cost_2 g = Inl (NotImplementedError ''Scaling max_cost not implemented.'')"
      "bias g = Inl (NotImplementedError ''Scaling max_cost not implemented.'')"
    by (simp_all add: cost_1_def cost_2_def bias_def)
  then have e: "efficient_apply g vec axis fn
      = Inl (NotImplementedError ''Scaling max_cost not implemented.'')"
    by (simp add: efficient_apply_def)
  show ?thesis using s f e by (simp add: cost_matrix_def apply_cost_to_vec_def)
qed

theorem max_cost_not_implemented_witness:
  "attr_scale_cost (ex_geom_of (PyStr ''max_cost'')) = PyStr ''max_cost''
   \<and> scale_cost (ex_geom_of (PyStr ''max_cost''))
       = Inl (NotImplementedError ''Scaling max_cost not implemented.'')
   \<and> cost_matrix (ex_geom_of (PyStr ''max_cost''))
       = Inl (NotImplementedError ''Scaling max_cost not implemented.'')
   \<and> apply_cost_to_vec (\<lambda>f. False) (ex_geom_of (PyStr ''max_cost'')) [1, 1] 1 None
       = Inl (NotImplementedError ''Scaling max_cost not implemented.'')"
proof -
  have h: "attr_scale_cost (ex_geom_of (PyStr ''max_cost'')) = PyStr ''max_cost''"
    by (simp add: ex_geom_of_def)
  show ?thesis
    using h max_cost_not_implemented [OF h, of "[1, 1]" 1 None "\<lambda>f. False"] by simp
qed

subsection \<open>Unrecognised policies\<close>

text \<open>
  C8. With a string policy other than \<^verbatim>\<open>'max_bound'\<close>, \<^verbatim>\<open>'mean'\<close> and \<^verbatim>\<open>'max_cost'\<close>,
  construction succeeds (the factors having the same number of columns), and the failure
  comes when the scale is resolved: \<open>scale_cost\<close> raises \<open>ValueError\<close>, and the scaled
  factors, the scaled bias and the cost matrix raise it too, without a value.
\<close>

theorem unknown_policy_fails_lazily:
  assumes "s \<noteq> ''max_bound''" "s \<noteq> ''mean''" "s \<noteq> ''max_cost''"
    and "shape1 c1 = shape1 c2"
  shows "\<exists>g. LRCGeometry_init c1 c2 b (PyStr s) kw = Inr g
           \<and> scale_cost g = Inl (ValueError (''Scaling '' @ s @ '' not provided.''))
           \<and> cost_1 g = Inl (ValueError (''Scaling '' @ s @ '' not provided.''))
           \<and> cost_2 g = Inl (ValueError (''Scaling '' @ s @ '' not provided.''))
           \<and> bias g = Inl (ValueError (''Scaling '' @ s @ '' not provided.''))
           \<and> cost_matrix g = Inl (ValueError (''Scaling '' @ s @ '' not provided.''))"
proof -
  define g where "g = \<lparr>attr_cost_1 = c1, attr_cost_2 = c2, attr_bias = b,
                        attr_kwargs = kw, attr_scale_cost = PyStr s\<rparr>"
  have i: "LRCGeometry_init c1 c2 b (PyStr s) kw = Inr g"
    using assms(4) by (simp add: LRCGeometry_init_def g_def)
  have sc: "scale_cost g = Inl (ValueError (''Scaling '' @ s @ '' not provided.''))"
    using assms(1-3) by (simp add: scale_cost_def g_def)
  then have "cost_1 g = Inl (ValueError (''Scaling '' @ s @ '' not provided.''))"
      "cost_2 g = Inl (ValueError (''Scaling '' @ s @ '' not provided.''))"
      "bias g = Inl (ValueError (''Scaling '' @ s @ '' not provided.''))"
      "cost_matrix g = Inl (ValueError (''Scaling '' @ s @ '' not provided.''))"
    by (simp_all add: cost_1_def cost_2_def bias_def cost_matrix_def)
  with i sc show ?thesis by blast
qed

theorem unknown_policy_fails_lazily_witness:
  "''median'' \<noteq> ''max_bound'' \<and> ''median'' \<noteq> ''mean'' \<and> ''median'' \<noteq> ''max_cost''
   \<and> shape1 ex_cost_1 = shape1 ex_cost_2
   \<and> LRCGeometry_init ex_cost_1 ex_cost_2 1 (PyStr ''median'') []
       = Inr (ex_geom_of (PyStr ''median''))
   \<and> scale_cost (ex_geom_of (PyStr ''median''))
       = Inl (ValueError ''Scaling median not provided.'')
   \<and> cost_matrix (ex_geom_of (PyStr ''median''))
       = Inl (ValueError ''Scaling median not provided.'')"
proof -
  have h: "''median'' \<noteq> ''max_bound''" "''median'' \<noteq> ''mean''" "''median'' \<noteq> ''max_cost''"
    "shape1 ex_cost_1 = shape1 ex_cost_2"
    by (simp_all add: ex_cost_1_def ex_cost_2_def)
  have i: "LRCGeometry_init ex_cost_1 ex_cost_2 1 (PyStr ''median'') []
       = Inr (ex_geom_of (PyStr ''median''))"
    by (simp add: LRCGeometry_init_def ex_geom_of_def ex_cost_1_def ex_cost_2_def)
  from unknown_policy_fails_lazily [OF h, of 1 "[] :: (string \<times> unit) list"] i
  have "scale_cost (ex_geom_of (PyStr ''median'')) = Inl (ValueError ''Scaling median not provided.'')
      \<and> cost_matrix (ex_geom_of (PyStr ''median'')) = Inl (ValueError ''Scaling median not provided.'')"
    by auto
  then show ?thesis using h i by simp
qed

subsection \<open>Flattening\<close>

text \<open>
  C9. For a geometry returned by the constructor, \<open>tree_flatten\<close> gives the children (the
  two stored factors and the keyword arguments) and the auxiliary data (the stored bias
  and scale policy), and \<open>tree_unflatten\<close> on them returns the same geometry, hence one
  with the same cost matrix, whatever its outcome.
\<close>

theorem tree_roundtrip:
  assumes "LRCGeometry_init c1 c2 b sc kw = Inr g"
  shows "tree_flatten g = ((c1, c2, kw), (b, sc))
       \<and> tree_unflatten (snd (tree_flatten g)) (fst (tree_flatten g)) = Inr g
       \<and> (\<exists>g2. tree_unflatten (snd (tree_flatten g)) (fst (tree_flatten g)) = Inr g2
                \<and> cost_matrix g2 = cost_matrix g)"
  using assms
  by (auto simp: LRCGeometry_init_def tree_unflatten_def tree_flatten_def split: if_splits)

theorem tree_roundtrip_witness:
  "LRCGeometry_init ex_cost_1 ex_cost_2 1 (PyFloat 4) [] = Inr ex_geom
   \<and> tree_flatten ex_geom = ((ex_cost_1, ex_cost_2, []), (1, PyFloat 4))
   \<and> tree_unflatten (1, PyFloat 4) (ex_cost_1, ex_cost_2, []) = Inr ex_geom"
proof -
  have h: "LRCGeometry_init ex_cost_1 ex_cost_2 1 (PyFloat 4) [] = Inr ex_geom"
    by (simp add: LRCGeometry_init_def ex_geom_def ex_cost_1_def ex_cost_2_def)
  from tree_roundtrip [OF h]
  have f: "tree_flatten ex_geom = ((ex_cost_1, ex_cost_2, []), (1, PyFloat 4))"
    and u: "tree_unflatten (snd (tree_flatten ex_geom)) (fst (tree_flatten ex_geom)) = Inr ex_geom"
    by blast+
  from u have "tree_unflatten (1, PyFloat 4) (ex_cost_1, ex_cost_2, []) = Inr ex_geom"
    unfolding f by simp
  then show ?thesis using h f by simp
qed

subsection \<open>Values that are neither a float nor a string\<close>

text \<open>
  C10. When the stored \<^verbatim>\<open>scale_cost\<close> is neither a float nor a string (an int, a bool,
  \<^verbatim>\<open>None\<close>), the resolved scale is \<open>1.0\<close>: no failure, and the value given is not used.
\<close>

theorem non_float_scale_is_identity:
  assumes "\<not> isinstance_float (attr_scale_cost g)" "\<not> isinstance_str (attr_scale_cost g)"
  shows "scale_cost g = Inr 1"
proof -
  have "attr_scale_cost g \<noteq> PyStr s" for s
    using assms(2) by (cases "attr_scale_cost g") auto
  then show ?thesis using assms by (simp add: scale_cost_def)
qed

theorem non_float_scale_is_identity_witness:
  "\<not> isinstance_float (attr_scale_cost (ex_geom_of (PyInt 2)))
   \<and> \<not> isinstance_str (attr_scale_cost (ex_geom_of (PyInt 2)))
   \<and> scale_cost (ex_geom_of (PyInt 2)) = Inr 1
   \<and> scale_cost (ex_geom_of (PyFloat 2)) = Inr 2"
proof -
  have h: "\<not> isinstance_float (attr_scale_cost (ex_geom_of (PyInt 2)))"
    "\<not> isinstance_str (attr_scale_cost (ex_geom_of (PyInt 2)))"
    by (simp_all add: ex_geom_of_def)
  have "scale_cost (ex_geom_of (PyFloat 2)) = Inr 2"
    by (simp add: scale_cost_def ex_geom_of_def)
  then show ?thesis using h non_float_scale_is_identity [OF h] by simp
qed

end
